theory Spec2Isabelle
  imports Complex_Main
begin

section \<open>RunNote: Strava OAuth, webhook ingestion and bulk sync\<close>

text \<open>
  A shallow embedding of the three Supabase edge functions of the repository:
  \<^verbatim>\<open>strava-auth\<close> (login, callback), \<^verbatim>\<open>strava-webhook\<close> and \<^verbatim>\<open>strava-sync\<close>,
  together with the tables of the schema migration they read and write.

  Every handler runs against an environment (\<open>env\<close>: the configured secrets, the
  answers of the remote platform and of the store, the random source) and a
  \<open>world\<close> (the three tables and the trace of every outbound request and store
  operation issued so far). An \<^verbatim>\<open>await\<close>ed call takes the world and returns the new
  one. A JavaScript exception is the \<open>Inl\<close> of a sum; the world reached when it was
  thrown is returned beside it. Times are milliseconds since the epoch, as
  \<^verbatim>\<open>Date.now()\<close> gives them; one request reads one clock value \<open>now\<close>.
\<close>

subsection \<open>Strings\<close>

text \<open>\<^verbatim>\<open>String.prototype.startsWith\<close> and \<^verbatim>\<open>String.prototype.includes\<close>.\<close>

fun startsWith :: "string \<Rightarrow> string \<Rightarrow> bool" where
  "startsWith s [] = True"
| "startsWith [] (p # ps) = False"
| "startsWith (c # cs) (p # ps) = (c = p \<and> startsWith cs ps)"

fun str_includes :: "string \<Rightarrow> string \<Rightarrow> bool" where
  "str_includes [] sub = (sub = [])"
| "str_includes (c # cs) sub = (startsWith (c # cs) sub \<or> str_includes cs sub)"

text \<open>JavaScript truthiness of an optional string: \<^verbatim>\<open>undefined\<close>, \<^verbatim>\<open>null\<close> and \<^verbatim>\<open>""\<close> are falsy.\<close>

definition truthy :: "string option \<Rightarrow> bool" where
  "truthy v = (case v of None \<Rightarrow> False | Some s \<Rightarrow> s \<noteq> [])"

subsection \<open>Data model\<close>

text \<open>The environment variables the functions read with \<^verbatim>\<open>Deno.env.get\<close>.\<close>

record config =
  STRAVA_CLIENT_ID :: "string option"
  STRAVA_CLIENT_SECRET :: "string option"
  STRAVA_REDIRECT_URI :: "string option"
  STRAVA_VERIFY_TOKEN :: "string option"
  APP_URL :: "string option"

text \<open>Table \<^verbatim>\<open>public.oauth_states\<close> (\<^verbatim>\<open>state text primary key, created_at\<close>).\<close>

record oauth_state =
  state :: string
  state_created_at :: int

text \<open>
  Table \<^verbatim>\<open>public.profiles\<close>: the columns the functions read or write. The expiry is
  kept in milliseconds (\<^verbatim>\<open>new Date(col).getTime()\<close>).
\<close>

record profile =
  profile_id :: string
  strava_athlete_id :: "int option"
  strava_access_token :: string
  strava_refresh_token :: string
  strava_token_expires_at :: int
  profile_created_at :: int
  updated_at :: int

text \<open>
  A property of a JSON object as JavaScript reads it: not there (\<^verbatim>\<open>undefined\<close>),
  \<^verbatim>\<open>null\<close>, or a value.
\<close>

datatype 'a field = Undefined | Null | Defined 'a

text \<open>
  The activity object of the remote API, with the fields the functions read. The id and
  the type are in every activity the platform sends. Any other field may be missing;
  the platform leaves the heart-rate fields out of an activity that has no such data.
\<close>

record activity =
  a_id :: int
  a_name :: "string field"
  a_type :: string
  a_start_date :: "string field"
  a_distance :: "rat field"
  a_moving_time :: "int field"
  a_elapsed_time :: "int field"
  a_average_speed :: "rat field"
  a_max_speed :: "rat field"
  a_average_heartrate :: "rat field"
  a_max_heartrate :: "rat field"
  a_suffer_score :: "int field"

text \<open>
  Table \<^verbatim>\<open>public.activities\<close>. \<open>activity_values\<close> are the columns the functions name
  in an upsert, in two readings. As sent (\<open>sent_values\<close>, the object literal of the
  handler) a column that is read from a field of the activity has that field, which
  may be \<^verbatim>\<open>undefined\<close>. As stored (\<open>stored_values\<close>, the \<open>written\<close> part of a row) such a
  column is \<^verbatim>\<open>NULL\<close> or a value. A row has, beside them, the columns the store fills in
  or other components own.
\<close>

record ('t, 'r, 'i) activity_values =
  user_id :: string
  strava_activity_id :: int
  name :: 't
  activity_type :: string
  start_date :: 't
  distance_meters :: 'r
  moving_time_seconds :: 'i
  elapsed_time_seconds :: 'i
  average_speed :: 'r
  max_speed :: 'r
  average_heartrate :: 'r
  max_heartrate :: 'r
  suffer_score :: 'i
  raw_data :: activity

type_synonym sent_values = "(string field, rat field, int field) activity_values"

type_synonym stored_values = "(string option, rat option, int option) activity_values"

record activity_row =
  row_id :: string
  written :: stored_values
  workout_type :: "string option"
  quality_score :: "rat option"
  quality_notes :: "string option"
  row_created_at :: int

text \<open>The token endpoint's answers: to a refresh, and to a code exchange.\<close>

record token_data =
  access_token :: string
  refresh_token :: string
  expires_at :: int

record exchange_data = token_data +
  athlete_id :: int

text \<open>
  What \<^verbatim>\<open>fetch\<close> gives: a rejected promise (no response at all), or a response
  with its status and its JSON body. \<^verbatim>\<open>response.ok\<close> is a status of 200 to 299. The
  functions read the body of a response that is not ok for their log only.
\<close>

datatype 'a reply = Rejected | Reply nat 'a

definition ok :: "nat \<Rightarrow> bool" where
  "ok st = (200 \<le> st \<and> st \<le> 299)"

text \<open>Every outbound request and store operation, in the order issued.\<close>

datatype event =
    Refresh_request string
  | Exchange_request string
  | Activity_request int string
  | Listing_request string int nat nat
  | Select_state string
  | Delete_state string
  | Insert_state string
  | Select_profile int
  | Update_profile_tokens string
  | Update_athlete_tokens int
  | Insert_profile int
  | Upsert_activity int

text \<open>
  The environment. Each answer may depend on the number of operations issued before
  it (the length of the trace), so a remote that answers 401 once and 200 on the next
  call is an \<open>env\<close>. \<open>store_fails k\<close>: the store answers the operation issued at step
  \<open>k\<close> with an error and changes nothing.
\<close>

record env =
  config :: config
  token_endpoint :: "nat \<Rightarrow> string \<Rightarrow> token_data reply"
  exchange_endpoint :: "nat \<Rightarrow> string \<Rightarrow> exchange_data reply"
  activity_endpoint :: "nat \<Rightarrow> int \<Rightarrow> string \<Rightarrow> activity reply"
  listing_endpoint :: "nat \<Rightarrow> string \<Rightarrow> int \<Rightarrow> nat \<Rightarrow> nat \<Rightarrow> activity list reply"
  store_fails :: "nat \<Rightarrow> bool"
  randomUUID :: "nat \<Rightarrow> string"

record world =
  profiles :: "profile list"
  activities :: "activity_row list"
  oauth_states :: "oauth_state list"
  trace :: "event list"

text \<open>
  What the functions throw: \<^verbatim>\<open>Missing STRAVA_CLIENT_ID or STRAVA_REDIRECT_URI\<close>,
  \<^verbatim>\<open>STRAVA_REDIRECT_URI must use HTTPS in production\<close>, \<^verbatim>\<open>Failed to initiate OAuth
  flow\<close>, \<^verbatim>\<open>Token refresh failed\<close>, \<^verbatim>\<open>Failed to save refreshed tokens\<close>; and what
  the runtime throws for a rejected \<^verbatim>\<open>fetch\<close> and for a request body the handler cannot
  read: \<^verbatim>\<open>req.json()\<close> throws on a body that is not JSON, and the first read of a
  property throws on the JSON body \<^verbatim>\<open>null\<close>.
\<close>

datatype error =
    Missing_config
  | Https_required
  | Oauth_init_failed
  | Token_refresh_failed
  | Save_tokens_failed
  | Fetch_rejected
  | Body_unreadable

record sync_summary =
  success :: bool
  total_fetched :: nat
  runs_found :: nat
  synced :: nat
  failed :: nat

datatype resp_body =
    No_body
  | Text string
  | Error_json error
  | Error_text string
  | Challenge_json "string option"
  | Summary_json sync_summary

text \<open>
  The \<^verbatim>\<open>Location\<close> of a redirect: the platform's authorization page with its query
  parameters (client id, redirect URI, scope, state; percent-encoding left out), or an
  address of the application.
\<close>

datatype target = Authorize string string string string | Url string

record response =
  status :: nat
  body :: resp_body
  location :: "target option"

definition text_response :: "nat \<Rightarrow> string \<Rightarrow> response" where
  "text_response st s = \<lparr>status = st, body = Text s, location = None\<rparr>"

definition redirect :: "target \<Rightarrow> response" where
  "redirect url = \<lparr>status = 302, body = No_body, location = Some url\<rparr>"

text \<open>The \<^verbatim>\<open>catch\<close> branch of each \<^verbatim>\<open>Deno.serve\<close> handler: status 500, the error as JSON.\<close>

definition error_response :: "error \<Rightarrow> response" where
  "error_response e = \<lparr>status = 500, body = Error_json e, location = None\<rparr>"

subsection \<open>The store\<close>

definition step :: "world \<Rightarrow> nat" where
  "step w = length (trace w)"

definition emit :: "event \<Rightarrow> world \<Rightarrow> world" where
  "emit e w = w\<lparr>trace := trace w @ [e]\<rparr>"

text \<open>\<^verbatim>\<open>.single()\<close>: the row when exactly one matches, an error otherwise.\<close>

definition single :: "'a list \<Rightarrow> 'a option" where
  "single rows = (case rows of [r] \<Rightarrow> Some r | _ \<Rightarrow> None)"

definition select_state :: "env \<Rightarrow> string \<Rightarrow> world \<Rightarrow> oauth_state option \<times> world" where
  "select_state env s w =
     (if store_fails env (step w) then None
      else single (filter (\<lambda>r. state r = s) (oauth_states w)),
      emit (Select_state s) w)"

definition delete_state :: "env \<Rightarrow> string \<Rightarrow> world \<Rightarrow> world" where
  "delete_state env s w =
     emit (Delete_state s)
       (if store_fails env (step w) then w
        else w\<lparr>oauth_states := filter (\<lambda>r. state r \<noteq> s) (oauth_states w)\<rparr>)"

text \<open>An insert is refused when the primary key is taken; \<open>True\<close> is success.\<close>

definition insert_state :: "env \<Rightarrow> oauth_state \<Rightarrow> world \<Rightarrow> bool \<times> world" where
  "insert_state env r w =
     (if store_fails env (step w) \<or> state r \<in> set (map state (oauth_states w))
      then (False, emit (Insert_state (state r)) w)
      else (True, emit (Insert_state (state r)) (w\<lparr>oauth_states := oauth_states w @ [r]\<rparr>)))"

definition select_profile :: "env \<Rightarrow> int \<Rightarrow> world \<Rightarrow> profile option \<times> world" where
  "select_profile env a w =
     (if store_fails env (step w) then None
      else single (filter (\<lambda>p. strava_athlete_id p = Some a) (profiles w)),
      emit (Select_profile a) w)"

definition set_tokens :: "'a token_data_scheme \<Rightarrow> int \<Rightarrow> profile \<Rightarrow> profile" where
  "set_tokens d now p =
     p\<lparr>strava_access_token := access_token d,
       strava_refresh_token := refresh_token d,
       strava_token_expires_at := expires_at d * 1000,
       updated_at := now\<rparr>"

text \<open>\<^verbatim>\<open>.update({...}).eq('id', id).select().single()\<close>: the updated row, or an error.\<close>

definition update_profile_tokens ::
  "env \<Rightarrow> int \<Rightarrow> string \<Rightarrow> token_data \<Rightarrow> world \<Rightarrow> profile option \<times> world" where
  "update_profile_tokens env now pid d w =
     (if store_fails env (step w) then (None, emit (Update_profile_tokens pid) w)
      else
        (single (map (set_tokens d now) (filter (\<lambda>p. profile_id p = pid) (profiles w))),
         emit (Update_profile_tokens pid)
           (w\<lparr>profiles := map (\<lambda>p. if profile_id p = pid then set_tokens d now p else p)
                            (profiles w)\<rparr>)))"

text \<open>\<^verbatim>\<open>.update({...}).eq('strava_athlete_id', a)\<close>; \<open>True\<close> is success.\<close>

definition update_athlete_tokens ::
  "env \<Rightarrow> int \<Rightarrow> int \<Rightarrow> 'a token_data_scheme \<Rightarrow> world \<Rightarrow> bool \<times> world" where
  "update_athlete_tokens env now a d w =
     (if store_fails env (step w) then (False, emit (Update_athlete_tokens a) w)
      else
        (True,
         emit (Update_athlete_tokens a)
           (w\<lparr>profiles := map (\<lambda>p. if strava_athlete_id p = Some a then set_tokens d now p else p)
                            (profiles w)\<rparr>)))"

definition insert_profile :: "env \<Rightarrow> profile \<Rightarrow> int \<Rightarrow> world \<Rightarrow> bool \<times> world" where
  "insert_profile env p a w =
     (if store_fails env (step w)
         \<or> profile_id p \<in> set (map profile_id (profiles w))
         \<or> Some a \<in> set (map strava_athlete_id (profiles w))
      then (False, emit (Insert_profile a) w)
      else (True, emit (Insert_profile a) (w\<lparr>profiles := profiles w @ [p]\<rparr>)))"

definition activity_values_of :: "string \<Rightarrow> activity \<Rightarrow> sent_values" where
  "activity_values_of uid a =
     \<lparr>user_id = uid,
      strava_activity_id = a_id a,
      name = a_name a,
      activity_type = a_type a,
      start_date = a_start_date a,
      distance_meters = a_distance a,
      moving_time_seconds = a_moving_time a,
      elapsed_time_seconds = a_elapsed_time a,
      average_speed = a_average_speed a,
      max_speed = a_max_speed a,
      average_heartrate = a_average_heartrate a,
      max_heartrate = a_max_heartrate a,
      suffer_score = a_suffer_score a,
      raw_data = a\<rparr>"

text \<open>
  \<^verbatim>\<open>.upsert({...}, { onConflict: 'strava_activity_id' })\<close> on a table whose
  \<^verbatim>\<open>strava_activity_id\<close> is \<^verbatim>\<open>unique not null\<close>. The client sends the object as JSON,
  and \<^verbatim>\<open>JSON.stringify\<close> leaves out every key whose value is \<^verbatim>\<open>undefined\<close>; the store
  runs \<^verbatim>\<open>INSERT ... ON CONFLICT (strava_activity_id) DO UPDATE\<close> over the columns that
  were sent. So a column whose value was \<^verbatim>\<open>undefined\<close> keeps what the conflicting row
  had, and is \<^verbatim>\<open>NULL\<close> (the default of the schema) in a new row; \<^verbatim>\<open>null\<close> is sent and
  stored as \<^verbatim>\<open>NULL\<close>. A conflicting row keeps its other columns too; a new row takes
  their defaults.
\<close>

definition column :: "'a field \<Rightarrow> 'a option \<Rightarrow> 'a option" where
  "column sent old = (case sent of Undefined \<Rightarrow> old | Null \<Rightarrow> None | Defined x \<Rightarrow> Some x)"

text \<open>What a column held before the write: in the conflicting row, or by default.\<close>

definition kept :: "stored_values option \<Rightarrow> (stored_values \<Rightarrow> 'a option) \<Rightarrow> 'a option" where
  "kept old col = (case old of None \<Rightarrow> None | Some c \<Rightarrow> col c)"

text \<open>
  The stored values after a write of \<open>v\<close>, over the values \<open>old\<close> of the conflicting
  row if there is one.
\<close>

definition set_columns :: "sent_values \<Rightarrow> stored_values option \<Rightarrow> stored_values" where
  "set_columns v old =
     \<lparr>user_id = user_id v,
      strava_activity_id = strava_activity_id v,
      name = column (name v) (kept old name),
      activity_type = activity_type v,
      start_date = column (start_date v) (kept old start_date),
      distance_meters = column (distance_meters v) (kept old distance_meters),
      moving_time_seconds = column (moving_time_seconds v) (kept old moving_time_seconds),
      elapsed_time_seconds = column (elapsed_time_seconds v) (kept old elapsed_time_seconds),
      average_speed = column (average_speed v) (kept old average_speed),
      max_speed = column (max_speed v) (kept old max_speed),
      average_heartrate = column (average_heartrate v) (kept old average_heartrate),
      max_heartrate = column (max_heartrate v) (kept old max_heartrate),
      suffer_score = column (suffer_score v) (kept old suffer_score),
      raw_data = raw_data v\<rparr>"

definition upsert_row ::
  "sent_values \<Rightarrow> string \<Rightarrow> int \<Rightarrow> activity_row list \<Rightarrow> activity_row list" where
  "upsert_row v new_id now rows =
     (if strava_activity_id v \<in> set (map (\<lambda>r. strava_activity_id (written r)) rows)
      then map (\<lambda>r. if strava_activity_id (written r) = strava_activity_id v
                     then r\<lparr>written := set_columns v (Some (written r))\<rparr>
                     else r) rows
      else rows @ [\<lparr>row_id = new_id, written = set_columns v None,
                     workout_type = None, quality_score = None, quality_notes = None,
                     row_created_at = now\<rparr>])"

definition upsert_activity :: "env \<Rightarrow> int \<Rightarrow> sent_values \<Rightarrow> world \<Rightarrow> bool \<times> world" where
  "upsert_activity env now v w =
     (if store_fails env (step w)
      then (False, emit (Upsert_activity (strava_activity_id v)) w)
      else (True,
            emit (Upsert_activity (strava_activity_id v))
              (w\<lparr>activities := upsert_row v (randomUUID env (step w)) now (activities w)\<rparr>)))"

subsection \<open>Outbound requests\<close>

definition post_refresh :: "env \<Rightarrow> string \<Rightarrow> world \<Rightarrow> token_data reply \<times> world" where
  "post_refresh env rt w = (token_endpoint env (step w) rt, emit (Refresh_request rt) w)"

definition post_exchange :: "env \<Rightarrow> string \<Rightarrow> world \<Rightarrow> exchange_data reply \<times> world" where
  "post_exchange env code w = (exchange_endpoint env (step w) code, emit (Exchange_request code) w)"

definition get_activity :: "env \<Rightarrow> int \<Rightarrow> string \<Rightarrow> world \<Rightarrow> activity reply \<times> world" where
  "get_activity env i tok w = (activity_endpoint env (step w) i tok, emit (Activity_request i tok) w)"

definition get_listing ::
  "env \<Rightarrow> string \<Rightarrow> int \<Rightarrow> nat \<Rightarrow> nat \<Rightarrow> world \<Rightarrow> activity list reply \<times> world" where
  "get_listing env tok after page perPage w =
     (listing_endpoint env (step w) tok after page perPage,
      emit (Listing_request tok after page perPage) w)"

subsection \<open>strava-auth: login and callback\<close>

text \<open>\<^verbatim>\<open>Deno.env.get('APP_URL') || 'http://localhost:4200'\<close>\<close>

definition appUrl :: "env \<Rightarrow> string" where
  "appUrl env =
     (case APP_URL (config env) of
        None \<Rightarrow> ''http://localhost:4200''
      | Some u \<Rightarrow> if u = [] then ''http://localhost:4200'' else u)"

definition handleLogin :: "env \<Rightarrow> int \<Rightarrow> world \<Rightarrow> (error + response) \<times> world" where
  "handleLogin env now w =
     (case (STRAVA_CLIENT_ID (config env), STRAVA_REDIRECT_URI (config env)) of
        (Some clientId, Some redirectUri) \<Rightarrow>
          if clientId = [] \<or> redirectUri = [] then (Inl Missing_config, w)
          else
            let isLocalDev = str_includes redirectUri ''localhost''
                             \<or> str_includes redirectUri ''127.0.0.1''
            in
              if \<not> isLocalDev \<and> \<not> startsWith redirectUri ''https://''
              then (Inl Https_required, w)
              else
                let st = randomUUID env (step w) in
                  (case insert_state env \<lparr>state = st, state_created_at = now\<rparr> w of
                     (False, w1) \<Rightarrow> (Inl Oauth_init_failed, w1)
                   | (True, w1) \<Rightarrow>
                       (Inr (redirect (Authorize clientId redirectUri
                               ''read,activity:read_all,activity:write'' st)), w1))
      | _ \<Rightarrow> (Inl Missing_config, w))"

text \<open>
  The state validation of the callback (\<^verbatim>\<open>// Validate and consume state (one-time
  use)\<close>): \<open>Some\<close> response when the handler returns there, \<open>None\<close> when it goes on
  to the token exchange. The result of the \<^verbatim>\<open>delete\<close> is not looked at.
\<close>

definition consume_state :: "env \<Rightarrow> int \<Rightarrow> string \<Rightarrow> world \<Rightarrow> response option \<times> world" where
  "consume_state env now st w =
     (case select_state env st w of
        (None, w1) \<Rightarrow> (Some (text_response 403 ''Invalid or expired state''), w1)
      | (Some stateRecord, w1) \<Rightarrow>
          let stateAge = now - state_created_at stateRecord in
            if stateAge > 600000
            then (Some (text_response 403 ''State expired''), delete_state env st w1)
            else (None, delete_state env st w1))"

text \<open>The rest of the callback: the code exchange and the profile update or insert.\<close>

definition exchange_and_save :: "env \<Rightarrow> int \<Rightarrow> string \<Rightarrow> world \<Rightarrow> (error + response) \<times> world" where
  "exchange_and_save env now code w =
     (case post_exchange env code w of
        (Rejected, w1) \<Rightarrow> (Inl Fetch_rejected, w1)
      | (Reply st tokenData, w1) \<Rightarrow>
          if \<not> ok st then (Inr (text_response 500 ''Token exchange failed''), w1)
          else
            let athleteId = athlete_id tokenData in
              (case select_profile env athleteId w1 of
                 (Some existingProfile, w2) \<Rightarrow>
                   (case update_athlete_tokens env now athleteId tokenData w2 of
                      (False, w3) \<Rightarrow> (Inr (text_response 500 ''Failed to save tokens''), w3)
                    | (True, w3) \<Rightarrow>
                        (Inr (redirect (Url (appUrl env @ ''/dashboard?connected=true''))), w3))
               | (None, w2) \<Rightarrow>
                   (case insert_profile env
                           \<lparr>profile_id = randomUUID env (step w2),
                            strava_athlete_id = Some athleteId,
                            strava_access_token = access_token tokenData,
                            strava_refresh_token = refresh_token tokenData,
                            strava_token_expires_at = expires_at tokenData * 1000,
                            profile_created_at = now,
                            updated_at = now\<rparr> athleteId w2 of
                      (False, w3) \<Rightarrow> (Inr (text_response 500 ''Failed to save tokens''), w3)
                    | (True, w3) \<Rightarrow>
                        (Inr (redirect (Url (appUrl env @ ''/dashboard?connected=true''))), w3))))"

record callback_query =
  q_code :: "string option"
  q_state :: "string option"
  q_error :: "string option"

definition handleCallback ::
  "env \<Rightarrow> int \<Rightarrow> callback_query \<Rightarrow> world \<Rightarrow> (error + response) \<times> world" where
  "handleCallback env now q w =
     (if truthy (q_error q)
      then (Inr (redirect (Url (appUrl env @ ''?error=access_denied''))), w)
      else
        (case (q_code q, q_state q) of
           (Some code, Some st) \<Rightarrow>
             if code = [] \<or> st = []
             then (Inr (text_response 400 ''Missing code or state parameter''), w)
             else
               (case consume_state env now st w of
                  (Some resp, w1) \<Rightarrow> (Inr resp, w1)
                | (None, w1) \<Rightarrow> exchange_and_save env now code w1)
         | _ \<Rightarrow> (Inr (text_response 400 ''Missing code or state parameter''), w)))"

subsection \<open>Token refresher (the same in strava-webhook and strava-sync)\<close>

definition refreshTokens :: "env \<Rightarrow> int \<Rightarrow> profile \<Rightarrow> world \<Rightarrow> (error + profile) \<times> world" where
  "refreshTokens env now p w =
     (case post_refresh env (strava_refresh_token p) w of
        (Rejected, w1) \<Rightarrow> (Inl Fetch_rejected, w1)
      | (Reply st d, w1) \<Rightarrow>
          if \<not> ok st then (Inl Token_refresh_failed, w1)
          else
            (case update_profile_tokens env now (profile_id p) d w1 of
               (None, w2) \<Rightarrow> (Inl Save_tokens_failed, w2)
             | (Some updated, w2) \<Rightarrow> (Inr updated, w2)))"

text \<open>
  \<^verbatim>\<open>expiresAt = new Date(profile.strava_token_expires_at).getTime() / 1000\<close> (seconds,
  with the milliseconds as a fraction) and \<^verbatim>\<open>now = Math.floor(Date.now() / 1000)\<close>
  (whole seconds).
\<close>

definition expiresAt :: "profile \<Rightarrow> rat" where
  "expiresAt p = of_int (strava_token_expires_at p) / 1000"

definition now_seconds :: "int \<Rightarrow> int" where
  "now_seconds now = now div 1000"

definition ensureValidTokens :: "env \<Rightarrow> int \<Rightarrow> profile \<Rightarrow> world \<Rightarrow> (error + profile) \<times> world" where
  "ensureValidTokens env now p w =
     (if expiresAt p \<le> of_int (now_seconds now + 60)
      then refreshTokens env now p w
      else (Inr p, w))"

subsection \<open>Remote fetches\<close>

text \<open>
  \<open>fetchStravaActivity\<close>: \<open>None\<close> is the \<^verbatim>\<open>null\<close> returned on a response that is not
  ok. The activity id is sent as \<^verbatim>\<open>String(id)\<close>; the model keeps the number.
\<close>

definition fetchStravaActivity ::
  "env \<Rightarrow> int \<Rightarrow> string \<Rightarrow> world \<Rightarrow> (error + activity option) \<times> world" where
  "fetchStravaActivity env activityId accessToken w =
     (case get_activity env activityId accessToken w of
        (Rejected, w1) \<Rightarrow> (Inl Fetch_rejected, w1)
      | (Reply st a, w1) \<Rightarrow> if \<not> ok st then (Inr None, w1) else (Inr (Some a), w1))"

text \<open>
  The \<^verbatim>\<open>while (true)\<close> loop of \<open>fetchStravaActivities\<close>, from the page it is about
  to request and the activities pushed so far; \<^verbatim>\<open>perPage\<close> is 100.
\<close>

function fetch_pages ::
  "env \<Rightarrow> string \<Rightarrow> int \<Rightarrow> nat \<Rightarrow> activity list \<Rightarrow> world \<Rightarrow> (error + activity list) \<times> world" where
  "fetch_pages env accessToken after page acts w =
     (case get_listing env accessToken after page 100 w of
        (Rejected, w1) \<Rightarrow> (Inl Fetch_rejected, w1)
      | (Reply st batch, w1) \<Rightarrow>
          if \<not> ok st then (Inr acts, w1)
          else if length batch = 0 then (Inr acts, w1)
          else if page + 1 > 10 then (Inr (acts @ batch), w1)
          else fetch_pages env accessToken after (page + 1) (acts @ batch) w1)"
  by pat_completeness auto
termination
  by (relation "measure (\<lambda>(env, accessToken, after, page, acts, w). 11 - page)") auto

definition fetchStravaActivities ::
  "env \<Rightarrow> string \<Rightarrow> int \<Rightarrow> world \<Rightarrow> (error + activity list) \<times> world" where
  "fetchStravaActivities env accessToken after w = fetch_pages env accessToken after 1 [] w"

subsection \<open>strava-webhook\<close>

text \<open>The event object of a delivery, with the four fields the handler reads.\<close>

record webhook_event =
  object_type :: string
  aspect_type :: string
  owner_id :: int
  object_id :: int

text \<open>
  A request: its method, its query parameters, and its body as the handler gets it from
  \<^verbatim>\<open>req.json()\<close>: \<open>Some\<close> object, or \<open>None\<close> when there is no object to read, which is
  when \<^verbatim>\<open>req.json()\<close> throws (the body is not JSON) and when it returns \<^verbatim>\<open>null\<close> (the
  body is the JSON \<^verbatim>\<open>null\<close>). In strava-webhook the \<^verbatim>\<open>null\<close> makes \<^verbatim>\<open>event.object_type\<close>
  throw, in strava-sync the destructuring of the body; both handlers catch either
  exception in the same \<^verbatim>\<open>catch\<close> branch.
\<close>

record 'b request =
  req_method :: string
  req_query :: "(string \<times> string) list"
  req_body :: "'b option"

definition handleVerification :: "env \<Rightarrow> 'b request \<Rightarrow> response" where
  "handleVerification env req =
     (let mode = map_of (req_query req) ''hub.mode'';
          challenge = map_of (req_query req) ''hub.challenge'';
          verifyToken = map_of (req_query req) ''hub.verify_token'';
          expectedToken = STRAVA_VERIFY_TOKEN (config env)
      in
        if mode = Some ''subscribe'' \<and> verifyToken \<noteq> None \<and> verifyToken = expectedToken
        then \<lparr>status = 200, body = Challenge_json challenge, location = None\<rparr>
        else text_response 403 ''Forbidden'')"

definition handleWebhookEvent ::
  "env \<Rightarrow> int \<Rightarrow> webhook_event request \<Rightarrow> world \<Rightarrow> (error + response) \<times> world" where
  "handleWebhookEvent env now req w =
     (case req_body req of
        None \<Rightarrow> (Inl Body_unreadable, w)
      | Some event \<Rightarrow>
          if object_type event \<noteq> ''activity'' then (Inr (text_response 200 ''OK''), w)
          else if aspect_type event \<noteq> ''create'' \<and> aspect_type event \<noteq> ''update''
          then (Inr (text_response 200 ''OK''), w)
          else
            (case select_profile env (owner_id event) w of
               (None, w1) \<Rightarrow> (Inr (text_response 200 ''OK''), w1)
             | (Some p, w1) \<Rightarrow>
                 (case ensureValidTokens env now p w1 of
                    (Inl e, w2) \<Rightarrow> (Inl e, w2)
                  | (Inr tokens, w2) \<Rightarrow>
                      (case fetchStravaActivity env (object_id event)
                              (strava_access_token tokens) w2 of
                         (Inl e, w3) \<Rightarrow> (Inl e, w3)
                       | (Inr None, w3) \<Rightarrow> (Inr (text_response 200 ''OK''), w3)
                       | (Inr (Some a), w3) \<Rightarrow>
                           if a_type a \<noteq> ''Run'' then (Inr (text_response 200 ''OK''), w3)
                           else
                             (case upsert_activity env now
                                     (activity_values_of (profile_id p) a) w3 of
                                (upserted, w4) \<Rightarrow> (Inr (text_response 200 ''OK''), w4))))))"

text \<open>The \<^verbatim>\<open>Deno.serve\<close> handler of strava-webhook, with its \<^verbatim>\<open>try\<close>/\<^verbatim>\<open>catch\<close>.\<close>

definition strava_webhook ::
  "env \<Rightarrow> int \<Rightarrow> webhook_event request \<Rightarrow> world \<Rightarrow> response \<times> world" where
  "strava_webhook env now req w =
     (if req_method req = ''OPTIONS'' then (text_response 200 ''ok'', w)
      else
        (case (if req_method req = ''GET'' then (Inr (handleVerification env req), w)
               else if req_method req = ''POST'' then handleWebhookEvent env now req w
               else (Inr (text_response 405 ''Method not allowed''), w)) of
           (Inl e, w1) \<Rightarrow> (error_response e, w1)
         | (Inr resp, w1) \<Rightarrow> (resp, w1)))"

subsection \<open>strava-sync\<close>

text \<open>
  The \<^verbatim>\<open>for (const activity of runs)\<close> loop with its two counters. The wait of 100
  milliseconds after each upsert changes nothing that is modelled.
\<close>

fun sync_runs ::
  "env \<Rightarrow> int \<Rightarrow> profile \<Rightarrow> profile \<Rightarrow> activity list \<Rightarrow> nat \<Rightarrow> nat \<Rightarrow> world
     \<Rightarrow> (error + nat \<times> nat) \<times> world" where
  "sync_runs env now p tks [] nsynced nfailed w = (Inr (nsynced, nfailed), w)"
| "sync_runs env now p tks (a # runs) nsynced nfailed w =
     (case fetchStravaActivity env (a_id a) (strava_access_token tks) w of
        (Inl e, w1) \<Rightarrow> (Inl e, w1)
      | (Inr None, w1) \<Rightarrow> sync_runs env now p tks runs nsynced (nfailed + 1) w1
      | (Inr (Some fullActivity), w1) \<Rightarrow>
          (case upsert_activity env now (activity_values_of (profile_id p) fullActivity) w1 of
             (False, w2) \<Rightarrow> sync_runs env now p tks runs nsynced (nfailed + 1) w2
           | (True, w2) \<Rightarrow> sync_runs env now p tks runs (nsynced + 1) nfailed w2))"

record sync_body =
  b_athlete_id :: "int option"
  b_weeks :: "int option"

text \<open>
  \<^verbatim>\<open>const { athlete_id, weeks = 8 } = await req.json()\<close> and the lower bound of the
  listing, \<^verbatim>\<open>Math.floor((now - weeks * 7 * 24 * 60 * 60 * 1000) / 1000)\<close>.
\<close>

definition weeks_of :: "sync_body \<Rightarrow> int" where
  "weeks_of b = (case b_weeks b of None \<Rightarrow> 8 | Some n \<Rightarrow> n)"

definition after_of :: "int \<Rightarrow> int \<Rightarrow> int" where
  "after_of now weeks = (now - weeks * 7 * 24 * 60 * 60 * 1000) div 1000"

text \<open>The body of the \<^verbatim>\<open>try\<close> block.\<close>

definition sync_try ::
  "env \<Rightarrow> int \<Rightarrow> sync_body request \<Rightarrow> world \<Rightarrow> (error + response) \<times> world" where
  "sync_try env now req w =
     (case req_body req of
        None \<Rightarrow> (Inl Body_unreadable, w)
      | Some b \<Rightarrow>
          (case b_athlete_id b of
             None \<Rightarrow> (Inr \<lparr>status = 400, body = Error_text ''Missing athlete_id'', location = None\<rparr>, w)
           | Some athlete \<Rightarrow>
               if athlete = 0
               then (Inr \<lparr>status = 400, body = Error_text ''Missing athlete_id'', location = None\<rparr>, w)
               else
                 (case select_profile env athlete w of
                    (None, w1) \<Rightarrow>
                      (Inr \<lparr>status = 404, body = Error_text ''Profile not found'', location = None\<rparr>, w1)
                  | (Some p, w1) \<Rightarrow>
                      (case ensureValidTokens env now p w1 of
                         (Inl e, w2) \<Rightarrow> (Inl e, w2)
                       | (Inr tks, w2) \<Rightarrow>
                           let weeks = weeks_of b;
                               after = after_of now weeks
                           in
                             (case fetchStravaActivities env (strava_access_token tks) after w2 of
                                (Inl e, w3) \<Rightarrow> (Inl e, w3)
                              | (Inr acts, w3) \<Rightarrow>
                                  let runs = filter (\<lambda>a. a_type a = ''Run'') acts in
                                    (case sync_runs env now p tks runs 0 0 w3 of
                                       (Inl e, w4) \<Rightarrow> (Inl e, w4)
                                     | (Inr (nsynced, nfailed), w4) \<Rightarrow>
                                         (Inr \<lparr>status = 200,
                                               body = Summary_json
                                                 \<lparr>success = True,
                                                  total_fetched = length acts,
                                                  runs_found = length runs,
                                                  synced = nsynced,
                                                  failed = nfailed\<rparr>,
                                               location = None\<rparr>, w4)))))))"

text \<open>The \<^verbatim>\<open>Deno.serve\<close> handler of strava-sync.\<close>

definition strava_sync ::
  "env \<Rightarrow> int \<Rightarrow> sync_body request \<Rightarrow> world \<Rightarrow> response \<times> world" where
  "strava_sync env now req w =
     (if req_method req = ''OPTIONS'' then (text_response 200 ''ok'', w)
      else if req_method req \<noteq> ''POST'' then (text_response 405 ''Method not allowed'', w)
      else
        (case sync_try env now req w of
           (Inl e, w1) \<Rightarrow> (error_response e, w1)
         | (Inr resp, w1) \<Rightarrow> (resp, w1)))"

subsection \<open>Counting the calls of the refresh endpoint\<close>

definition is_refresh :: "event \<Rightarrow> bool" where
  "is_refresh e = (case e of Refresh_request rt \<Rightarrow> True | _ \<Rightarrow> False)"

definition refresh_calls :: "world \<Rightarrow> nat" where
  "refresh_calls w = length (filter is_refresh (trace w))"

subsection \<open>What the listing loop is answered\<close>

text \<open>
  The answer to the request for page \<open>p\<close> of a loop that starts at page \<open>p0\<close> when
  \<open>s\<close> operations have been issued: the loop issues one request per page and nothing
  else. A page is full when the answer is ok and not empty; \<open>batch_of\<close> is what the
  loop pushes for an answer.
\<close>

definition reply_at :: "env \<Rightarrow> nat \<Rightarrow> nat \<Rightarrow> string \<Rightarrow> int \<Rightarrow> nat \<Rightarrow> activity list reply" where
  "reply_at env s p0 tok after p = listing_endpoint env (s + (p - p0)) tok after p 100"

definition full_page :: "activity list reply \<Rightarrow> bool" where
  "full_page r = (case r of Rejected \<Rightarrow> False | Reply st batch \<Rightarrow> ok st \<and> batch \<noteq> [])"

definition batch_of :: "activity list reply \<Rightarrow> activity list" where
  "batch_of r = (case r of Rejected \<Rightarrow> [] | Reply st batch \<Rightarrow> if ok st then batch else [])"

text \<open>The last page requested: the first of the pages 1 to 9 that is not full, or page 10.\<close>

definition last_page :: "env \<Rightarrow> world \<Rightarrow> string \<Rightarrow> int \<Rightarrow> nat" where
  "last_page env w tok after =
     Suc (length (takeWhile (\<lambda>p. full_page (reply_at env (step w) 1 tok after p)) [1..<10]))"

subsection \<open>Writes that have every field\<close>


subsection \<open>Concrete environments and worlds\<close>

text \<open>
  A platform that accepts every refresh and exchange, answers no activity request and
  lists nothing, with a store that answers every operation.
\<close>

definition quiet_env :: env where
  "quiet_env =
     \<lparr>config = \<lparr>STRAVA_CLIENT_ID = Some ''abc'', STRAVA_CLIENT_SECRET = Some ''secret'',
                 STRAVA_REDIRECT_URI = Some ''https://x/cb'', STRAVA_VERIFY_TOKEN = Some ''v'',
                 APP_URL = None\<rparr>,
      token_endpoint = (\<lambda>k rt. Reply 200 \<lparr>access_token = ''t1'', refresh_token = ''r1'', expires_at = 7200\<rparr>),
      exchange_endpoint = (\<lambda>k c. Reply 200 \<lparr>access_token = ''t1'', refresh_token = ''r1'', expires_at = 7200, athlete_id = 42\<rparr>),
      activity_endpoint = (\<lambda>k i tok. Rejected),
      listing_endpoint = (\<lambda>k tok after page perPage. Reply 200 []),
      store_fails = (\<lambda>k. False),
      randomUUID = (\<lambda>k. ''uuid'')\<rparr>"

definition one_state_world :: world where
  "one_state_world =
     \<lparr>profiles = [], activities = [],
      oauth_states = [\<lparr>state = ''s1'', state_created_at = 0\<rparr>], trace = []\<rparr>"

text \<open>
  A store that refuses the second and the seventh operation it gets. For two callbacks
  with the state \<^verbatim>\<open>s1\<close>, one after the other from \<open>one_state_world\<close>, these are the two
  deletes of the state.
\<close>

definition refused_delete_env :: env where
  "refused_delete_env = quiet_env\<lparr>store_fails := (\<lambda>k. k = 1 \<or> k = 6)\<rparr>"

definition callback_s1 :: callback_query where
  "callback_s1 = \<lparr>q_code = Some ''c1'', q_state = Some ''s1'', q_error = None\<rparr>"

definition fresh_profile :: profile where
  "fresh_profile =
     \<lparr>profile_id = ''u1'', strava_athlete_id = Some 42, strava_access_token = ''t0'',
      strava_refresh_token = ''r0'', strava_token_expires_at = 2000000,
      profile_created_at = 0, updated_at = 0\<rparr>"

text \<open>A profile whose token expires exactly 60 seconds after the clock value 1000000.\<close>

definition stale_profile :: profile where
  "stale_profile = fresh_profile\<lparr>strava_token_expires_at := 1060000\<rparr>"

definition fresh_world :: world where
  "fresh_world = \<lparr>profiles = [fresh_profile], activities = [], oauth_states = [], trace = []\<rparr>"

definition stale_world :: world where
  "stale_world = \<lparr>profiles = [stale_profile], activities = [], oauth_states = [], trace = []\<rparr>"

definition run_activity :: "int \<Rightarrow> activity" where
  "run_activity i =
     \<lparr>a_id = i, a_name = Defined ''Morning Run'', a_type = ''Run'',
      a_start_date = Defined ''2025-01-01T07:00:00Z'', a_distance = Defined 5000,
      a_moving_time = Defined 1500, a_elapsed_time = Defined 1600,
      a_average_speed = Defined (10 / 3), a_max_speed = Defined 5,
      a_average_heartrate = Defined 150, a_max_heartrate = Defined 175, a_suffer_score = Null\<rparr>"

text \<open>
  A platform that answers the first request it gets with 401 and every later one with
  200: the access token was invalidated out of band, and a retry would succeed.
\<close>

definition once_unauthorized_env :: env where
  "once_unauthorized_env =
     quiet_env
       \<lparr>activity_endpoint := (\<lambda>k i tok. Reply (if k = 0 then 401 else 200) (run_activity i)),
        listing_endpoint :=
          (\<lambda>k tok after page perPage.
             if k = 0 then Reply 401 [] else Reply 200 (if page = 1 then [run_activity 1] else []))\<rparr>"

text \<open>A plaintext callback address on a public host, with \<^verbatim>\<open>localhost\<close> in its path.\<close>

definition plaintext_env :: env where
  "plaintext_env =
     quiet_env\<lparr>config := (config quiet_env)\<lparr>STRAVA_REDIRECT_URI := Some ''http://example.com/localhost''\<rparr>\<rparr>"





text \<open>A platform that refuses every refresh with 401: the grant was revoked.\<close>

definition revoked_env :: env where
  "revoked_env =
     quiet_env\<lparr>token_endpoint :=
       (\<lambda>k rt. Reply 401 \<lparr>access_token = [], refresh_token = [], expires_at = 0\<rparr>)\<rparr>"

text \<open>The delivery \<^verbatim>\<open>{object_type: "activity", aspect_type: "create", owner_id: 42, object_id: 999}\<close>.\<close>

definition activity_created :: "webhook_event request" where
  "activity_created =
     \<lparr>req_method = ''POST'', req_query = [],
      req_body = Some \<lparr>object_type = ''activity'', aspect_type = ''create'',
                        owner_id = 42, object_id = 999\<rparr>\<rparr>"

text \<open>
  A platform that has the activity 999, a run, with a store that refuses the third
  operation it gets.
\<close>

definition failing_store_env :: env where
  "failing_store_env =
     quiet_env\<lparr>activity_endpoint := (\<lambda>k i tok. Reply 200 (run_activity i)),
               store_fails := (\<lambda>k. k = 2)\<rparr>"

text \<open>The sync request \<^verbatim>\<open>{athlete_id: 42}\<close>.\<close>

definition sync_42 :: "sync_body request" where
  "sync_42 =
     \<lparr>req_method = ''POST'', req_query = [],
      req_body = Some \<lparr>b_athlete_id = Some 42, b_weeks = None\<rparr>\<rparr>"

text \<open>
  A platform whose listing has the runs 1 to 100 on page 1, the runs 101 to 200 on
  page 2 and nothing after, and that has every activity asked for.
\<close>

definition two_pages_env :: env where
  "two_pages_env =
     quiet_env
       \<lparr>activity_endpoint := (\<lambda>k i tok. Reply 200 (run_activity i)),
        listing_endpoint :=
          (\<lambda>k tok after page perPage.
             Reply 200 (if page = 1 then map (\<lambda>i. run_activity (int i)) [1..<101]
                        else if page = 2 then map (\<lambda>i. run_activity (int i)) [101..<201]
                        else []))\<rparr>"

text \<open>A platform whose listing never ends: page \<open>p\<close> has the one run \<open>p\<close>.\<close>

definition endless_env :: env where
  "endless_env =
     quiet_env
       \<lparr>activity_endpoint := (\<lambda>k i tok. Reply 200 (run_activity i)),
        listing_endpoint := (\<lambda>k tok after page perPage. Reply 200 [run_activity (int page)])\<rparr>"

text \<open>
  A platform that lists the runs 1 and 2 on page 1 and answers every other page
  request with 500.
\<close>

definition broken_listing_env :: env where
  "broken_listing_env =
     quiet_env
       \<lparr>activity_endpoint := (\<lambda>k i tok. Reply 200 (run_activity i)),
        listing_endpoint :=
          (\<lambda>k tok after page perPage.
             if page = 1 then Reply 200 [run_activity 1, run_activity 2] else Reply 500 [])\<rparr>"

section \<open>Properties\<close>

subsection \<open>Worlds after an operation\<close>

lemma emit_simps [simp]:
  "profiles (emit e w) = profiles w"
  "activities (emit e w) = activities w"
  "oauth_states (emit e w) = oauth_states w"
  "trace (emit e w) = trace w @ [e]"
  "step (emit e w) = Suc (step w)"
  by (simp_all add: emit_def step_def)

lemma step_update [simp]:
  "step (w\<lparr>profiles := ps\<rparr>) = step w"
  "step (w\<lparr>activities := rows\<rparr>) = step w"
  "step (w\<lparr>oauth_states := sts\<rparr>) = step w"
  by (simp_all add: step_def)

subsection \<open>Keys of a table\<close>

lemma filter_key_find:
  "distinct (map f xs) \<Longrightarrow>
     filter (\<lambda>r. f r = k) xs = (case find (\<lambda>r. f r = k) xs of None \<Rightarrow> [] | Some r \<Rightarrow> [r])"
proof (induction xs)
  case Nil
  then show ?case by simp
next
  case (Cons x xs)
  show ?case
  proof (cases "f x = k")
    case True
    with Cons.prems True have "\<forall>r\<in>set xs. f r \<noteq> k" by (fastforce simp: image_iff)
    then have "filter (\<lambda>r. f r = k) xs = []" by (simp add: filter_empty_conv)
    with True show ?thesis by simp
  next
    case False
    with Cons show ?thesis by simp
  qed
qed

lemma single_filter_find:
  "distinct (map f xs) \<Longrightarrow> single (filter (\<lambda>r. f r = k) xs) = find (\<lambda>r. f r = k) xs"
  by (simp add: filter_key_find single_def split: option.splits)

lemma no_key_after_delete: "find (\<lambda>r. f r = k) (filter (\<lambda>r. f r \<noteq> k) xs) = None"
  by (simp add: find_None_iff)

lemma filter_keep_all: "find (\<lambda>r. f r = k) xs = None \<Longrightarrow> filter (\<lambda>r. f r \<noteq> k) xs = xs"
  by (simp add: find_None_iff filter_id_conv)


text \<open>The login keeps the primary key of the state table.\<close>

lemma insert_state_keeps_key:
  "distinct (map state (oauth_states w)) \<Longrightarrow>
   distinct (map state (oauth_states (snd (insert_state env r w))))"
  by (auto simp: insert_state_def)

lemma handleLogin_keeps_key:
  "distinct (map state (oauth_states w)) \<Longrightarrow>
   distinct (map state (oauth_states (snd (handleLogin env now w))))"
proof -
  assume pk: "distinct (map state (oauth_states w))"
  obtain u w1 where ins:
    "insert_state env \<lparr>state = randomUUID env (step w), state_created_at = now\<rparr> w = (u, w1)"
    by (cases "insert_state env \<lparr>state = randomUUID env (step w), state_created_at = now\<rparr> w")
  from insert_state_keeps_key [OF pk, of env "\<lparr>state = randomUUID env (step w), state_created_at = now\<rparr>"] ins
  have "distinct (map state (oauth_states w1))" by simp
  with pk ins show ?thesis
    by (auto simp: handleLogin_def Let_def split: option.splits bool.splits)
qed

lemma consume_state_result:
  assumes up: "\<forall>k. \<not> store_fails env k"
    and pk: "distinct (map state (oauth_states w))"
  shows "fst (consume_state env now st w) =
           (case find (\<lambda>r. state r = st) (oauth_states w) of
              None \<Rightarrow> Some (text_response 403 ''Invalid or expired state'')
            | Some stateRecord \<Rightarrow>
                if now - state_created_at stateRecord > 600000
                then Some (text_response 403 ''State expired'')
                else None)"
  using up pk
  by (simp add: consume_state_def select_state_def single_filter_find Let_def
        split: option.splits)

lemma consume_state_table:
  assumes up: "\<forall>k. \<not> store_fails env k"
    and pk: "distinct (map state (oauth_states w))"
  shows "oauth_states (snd (consume_state env now st w)) =
           filter (\<lambda>r. state r \<noteq> st) (oauth_states w)"
  using up pk
  by (simp add: consume_state_def select_state_def delete_state_def single_filter_find emit_def
        filter_keep_all Let_def split: option.splits)

subsection \<open>The one use of the CSRF state\<close>

text \<open>
  Claim C1. The state validation deletes the row and does not look at the result of the
  delete, whereas the lookup before it and the insert of the login check theirs. When
  the store refuses the delete, the validation goes on to the exchange all the same and
  the row stays. Here two callbacks present the state \<^verbatim>\<open>s1\<close>, 1 second and 2 seconds
  after it was issued, to a store that refuses both deletes: each validation passes,
  each callback exchanges its code and redirects to the dashboard, and the state is
  still stored afterwards.
\<close>

theorem callback_state_passes_twice:
  "fst (consume_state refused_delete_env 1000 ''s1'' one_state_world) = None
   \<and> oauth_states (snd (consume_state refused_delete_env 1000 ''s1'' one_state_world))
       = [\<lparr>state = ''s1'', state_created_at = 0\<rparr>]
   \<and> fst (handleCallback refused_delete_env 1000 callback_s1 one_state_world)
       = Inr (redirect (Url ''http://localhost:4200/dashboard?connected=true''))
   \<and> fst (handleCallback refused_delete_env 2000 callback_s1
            (snd (handleCallback refused_delete_env 1000 callback_s1 one_state_world)))
       = Inr (redirect (Url ''http://localhost:4200/dashboard?connected=true''))
   \<and> trace (snd (handleCallback refused_delete_env 2000 callback_s1
            (snd (handleCallback refused_delete_env 1000 callback_s1 one_state_world))))
       = [Select_state ''s1'', Delete_state ''s1'', Exchange_request ''c1'', Select_profile 42,
          Insert_profile 42,
          Select_state ''s1'', Delete_state ''s1'', Exchange_request ''c1'', Select_profile 42,
          Update_athlete_tokens 42]
   \<and> oauth_states (snd (handleCallback refused_delete_env 2000 callback_s1
            (snd (handleCallback refused_delete_env 1000 callback_s1 one_state_world))))
       = [\<lparr>state = ''s1'', state_created_at = 0\<rparr>]"
  by (simp add: handleCallback_def consume_state_def select_state_def delete_state_def
        exchange_and_save_def post_exchange_def select_profile_def insert_profile_def
        update_athlete_tokens_def refused_delete_env_def quiet_env_def callback_s1_def
        one_state_world_def truthy_def single_def ok_def appUrl_def step_def emit_def
        redirect_def Let_def)

text \<open>
  On a store that answers every operation, and a state table that respects its primary
  key: the state validation of the callback answers 403 \<^verbatim>\<open>Invalid or expired state\<close> when
  no row has the presented state; 403 \<^verbatim>\<open>State expired\<close> when the row is older than
  600000 milliseconds; and goes on to the exchange otherwise. Afterwards no row with
  that state is left (a miss had none to delete), and a second validation of the same
  state, at any later time, answers 403 \<^verbatim>\<open>Invalid or expired state\<close>.
\<close>

theorem consume_state_once:
  assumes up: "\<forall>k. \<not> store_fails env k"
    and pk: "distinct (map state (oauth_states w))"
  shows "(case consume_state env now st w of
            (r, w') \<Rightarrow>
              r = (case find (\<lambda>r. state r = st) (oauth_states w) of
                     None \<Rightarrow> Some (text_response 403 ''Invalid or expired state'')
                   | Some stateRecord \<Rightarrow>
                       if now - state_created_at stateRecord > 600000
                       then Some (text_response 403 ''State expired'')
                       else None)
              \<and> oauth_states w' = filter (\<lambda>r. state r \<noteq> st) (oauth_states w)
              \<and> fst (consume_state env now' st w') = Some (text_response 403 ''Invalid or expired state''))"
proof -
  define w' where "w' = snd (consume_state env now st w)"
  have tbl: "oauth_states w' = filter (\<lambda>r. state r \<noteq> st) (oauth_states w)"
    unfolding w'_def by (rule consume_state_table [OF up pk])
  have pk': "distinct (map state (oauth_states w'))"
    using pk by (simp add: tbl distinct_map_filter)
  have gone: "find (\<lambda>r. state r = st) (oauth_states w') = None"
    by (simp add: tbl no_key_after_delete)
  have again: "fst (consume_state env now' st w') = Some (text_response 403 ''Invalid or expired state'')"
    by (simp add: consume_state_result [OF up pk'] gone)
  show ?thesis
    using consume_state_result [OF up pk, of now st] tbl again
    by (simp add: case_prod_beta w'_def)
qed

theorem consume_state_once_witness:
  "(\<forall>k. \<not> store_fails quiet_env k) \<and> distinct (map state (oauth_states one_state_world))
   \<and> fst (consume_state quiet_env 600000 ''s1'' one_state_world) = None
   \<and> fst (consume_state quiet_env 600001 ''s1'' one_state_world)
       = Some (text_response 403 ''State expired'')
   \<and> fst (consume_state quiet_env 1000 ''s2'' one_state_world)
       = Some (text_response 403 ''Invalid or expired state'')
   \<and> oauth_states (snd (consume_state quiet_env 600000 ''s1'' one_state_world)) = []
   \<and> oauth_states (snd (consume_state quiet_env 600001 ''s1'' one_state_world)) = []
   \<and> fst (consume_state quiet_env 600002 ''s1'' (snd (consume_state quiet_env 600000 ''s1'' one_state_world)))
       = Some (text_response 403 ''Invalid or expired state'')"
proof -
  have up: "\<forall>k. \<not> store_fails quiet_env k" by (simp add: quiet_env_def)
  have pk: "distinct (map state (oauth_states one_state_world))" by (simp add: one_state_world_def)
  show ?thesis
    using up pk consume_state_once [OF up pk, of 600000 "''s1''" 600002]
      consume_state_once [OF up pk, of 600001 "''s1''" 600002]
      consume_state_once [OF up pk, of 1000 "''s2''" 600002]
    by (simp add: case_prod_beta one_state_world_def)
qed

subsection \<open>The token is refreshed at 60 seconds\<close>

lemma refresh_calls_emit:
  "refresh_calls (emit e w) = refresh_calls w + (if is_refresh e then 1 else 0)"
  by (simp add: refresh_calls_def emit_def)

lemma refresh_calls_update:
  "refresh_calls (snd (update_profile_tokens env now pid d w)) = refresh_calls w"
  by (simp add: update_profile_tokens_def refresh_calls_def emit_def is_refresh_def)

lemma refreshTokens_calls:
  "refresh_calls (snd (refreshTokens env now p w)) = refresh_calls w + 1"
proof (cases "token_endpoint env (step w) (strava_refresh_token p)")
  case Rejected
  then show ?thesis
    by (simp add: refreshTokens_def post_refresh_def refresh_calls_emit is_refresh_def)
next
  case (Reply st d)
  show ?thesis
  proof (cases "ok st")
    case False
    with Reply show ?thesis
      by (simp add: refreshTokens_def post_refresh_def refresh_calls_emit is_refresh_def)
  next
    case True
    let ?w1 = "emit (Refresh_request (strava_refresh_token p)) w"
    obtain r w2 where u: "update_profile_tokens env now (profile_id p) d ?w1 = (r, w2)"
      by (cases "update_profile_tokens env now (profile_id p) d ?w1")
    have "refresh_calls w2 = refresh_calls w + 1"
      using refresh_calls_update [of env now "profile_id p" d ?w1]
      by (simp add: u refresh_calls_emit is_refresh_def)
    with Reply True u show ?thesis
      by (simp add: refreshTokens_def post_refresh_def split: option.splits)
  qed
qed


lemma refreshTokens_success:
  assumes rep: "token_endpoint env (step w) (strava_refresh_token p) = Reply st d" and "ok st"
    and up: "\<not> store_fails env (Suc (step w))"
    and row: "filter (\<lambda>q. profile_id q = profile_id p) (profiles w) = [q]"
  shows "fst (refreshTokens env now p w) = Inr (set_tokens d now q)"
    and "set_tokens d now q \<in> set (profiles (snd (refreshTokens env now p w)))"
proof -
  let ?w1 = "emit (Refresh_request (strava_refresh_token p)) w"
  have "q \<in> set (filter (\<lambda>q. profile_id q = profile_id p) (profiles w))"
    by (simp add: row)
  then have q: "q \<in> set (profiles w)" "profile_id q = profile_id p"
    by simp_all
  have u1: "fst (update_profile_tokens env now (profile_id p) d ?w1) = Some (set_tokens d now q)"
    using up row by (simp add: update_profile_tokens_def single_def)
  have "(if profile_id q = profile_id p then set_tokens d now q else q)
          \<in> (\<lambda>p'. if profile_id p' = profile_id p then set_tokens d now p' else p') ` set (profiles w)"
    using q(1) by (rule imageI)
  then have u2: "set_tokens d now q
      \<in> set (profiles (snd (update_profile_tokens env now (profile_id p) d ?w1)))"
    using up q(2) by (simp add: update_profile_tokens_def)
  obtain r w2 where u: "update_profile_tokens env now (profile_id p) d ?w1 = (r, w2)"
    by (cases "update_profile_tokens env now (profile_id p) d ?w1")
  show "fst (refreshTokens env now p w) = Inr (set_tokens d now q)"
    using rep \<open>ok st\<close> u u1 by (simp add: refreshTokens_def post_refresh_def)
  show "set_tokens d now q \<in> set (profiles (snd (refreshTokens env now p w)))"
    using rep \<open>ok st\<close> u u1 u2 by (simp add: refreshTokens_def post_refresh_def)
qed

text \<open>
  Claim C4. With \<open>expiry - now\<close> above 60 seconds (the expiry in seconds, \<open>now\<close> the
  clock in whole seconds, as the function computes both) \<open>ensureValidTokens\<close> returns
  the credential it was given and issues nothing. At 60 seconds or below it calls the
  refresh endpoint exactly once, whatever comes back; and when the endpoint answers ok
  and the store saves the row of that profile, the credential returned has the access
  token, the refresh token and the expiry of the answer, and it is the stored row.
\<close>

theorem ensureValidTokens_threshold:
  "(60 < expiresAt p - of_int (now_seconds now) \<longrightarrow>
      ensureValidTokens env now p w = (Inr p, w))
   \<and> (expiresAt p - of_int (now_seconds now) \<le> 60 \<longrightarrow>
        refresh_calls (snd (ensureValidTokens env now p w)) = refresh_calls w + 1
        \<and> (\<forall>st d q.
              token_endpoint env (step w) (strava_refresh_token p) = Reply st d \<and> ok st
              \<and> \<not> store_fails env (Suc (step w))
              \<and> filter (\<lambda>q. profile_id q = profile_id p) (profiles w) = [q] \<longrightarrow>
              (\<exists>updated.
                 fst (ensureValidTokens env now p w) = Inr updated
                 \<and> strava_access_token updated = access_token d
                 \<and> strava_refresh_token updated = refresh_token d
                 \<and> strava_token_expires_at updated = expires_at d * 1000
                 \<and> updated \<in> set (profiles (snd (ensureValidTokens env now p w))))))"
proof (intro conjI impI allI)
  assume "60 < expiresAt p - of_int (now_seconds now)"
  then show "ensureValidTokens env now p w = (Inr p, w)"
    by (simp add: ensureValidTokens_def)
next
  assume stale: "expiresAt p - of_int (now_seconds now) \<le> 60"
  then have eq: "ensureValidTokens env now p w = refreshTokens env now p w"
    by (simp add: ensureValidTokens_def)
  show "refresh_calls (snd (ensureValidTokens env now p w)) = refresh_calls w + 1"
    by (simp add: eq refreshTokens_calls)
  fix st d q
  assume a: "token_endpoint env (step w) (strava_refresh_token p) = Reply st d \<and> ok st
              \<and> \<not> store_fails env (Suc (step w))
              \<and> filter (\<lambda>q. profile_id q = profile_id p) (profiles w) = [q]"
  have "fst (refreshTokens env now p w) = Inr (set_tokens d now q)"
    and "set_tokens d now q \<in> set (profiles (snd (refreshTokens env now p w)))"
    using a refreshTokens_success [of env w p st d q now] by blast+
  then show "\<exists>updated.
                 fst (ensureValidTokens env now p w) = Inr updated
                 \<and> strava_access_token updated = access_token d
                 \<and> strava_refresh_token updated = refresh_token d
                 \<and> strava_token_expires_at updated = expires_at d * 1000
                 \<and> updated \<in> set (profiles (snd (ensureValidTokens env now p w)))"
    by (simp add: eq set_tokens_def)
qed

theorem ensureValidTokens_threshold_witness:
  "ensureValidTokens quiet_env 1000000 fresh_profile fresh_world = (Inr fresh_profile, fresh_world)
   \<and> refresh_calls (snd (ensureValidTokens quiet_env 1000000 stale_profile stale_world)) = 1
   \<and> (\<exists>updated.
         fst (ensureValidTokens quiet_env 1000000 stale_profile stale_world) = Inr updated
         \<and> strava_access_token updated = ''t1''
         \<and> strava_refresh_token updated = ''r1''
         \<and> strava_token_expires_at updated = 7200000
         \<and> updated \<in> set (profiles (snd (ensureValidTokens quiet_env 1000000 stale_profile stale_world))))"
proof -
  have fresh: "60 < expiresAt fresh_profile - of_int (now_seconds 1000000)"
    by (simp add: expiresAt_def now_seconds_def fresh_profile_def)
  have stale: "expiresAt stale_profile - of_int (now_seconds 1000000) \<le> 60"
    by (simp add: expiresAt_def now_seconds_def stale_profile_def fresh_profile_def)
  have answer: "token_endpoint quiet_env (step stale_world) (strava_refresh_token stale_profile)
                  = Reply 200 \<lparr>access_token = ''t1'', refresh_token = ''r1'', expires_at = 7200\<rparr>
                \<and> ok 200
                \<and> \<not> store_fails quiet_env (Suc (step stale_world))
                \<and> filter (\<lambda>q. profile_id q = profile_id stale_profile) (profiles stale_world)
                    = [stale_profile]"
    by (simp add: quiet_env_def ok_def stale_world_def)
  have none: "refresh_calls stale_world = 0"
    by (simp add: refresh_calls_def stale_world_def)
  from ensureValidTokens_threshold [of fresh_profile 1000000 quiet_env fresh_world] fresh
  have A: "ensureValidTokens quiet_env 1000000 fresh_profile fresh_world = (Inr fresh_profile, fresh_world)"
    by blast
  from ensureValidTokens_threshold [of stale_profile 1000000 quiet_env stale_world] stale
  have B: "refresh_calls (snd (ensureValidTokens quiet_env 1000000 stale_profile stale_world))
             = refresh_calls stale_world + 1"
    and C: "\<forall>st d q.
              token_endpoint quiet_env (step stale_world) (strava_refresh_token stale_profile) = Reply st d
              \<and> ok st \<and> \<not> store_fails quiet_env (Suc (step stale_world))
              \<and> filter (\<lambda>q. profile_id q = profile_id stale_profile) (profiles stale_world) = [q] \<longrightarrow>
              (\<exists>updated.
                 fst (ensureValidTokens quiet_env 1000000 stale_profile stale_world) = Inr updated
                 \<and> strava_access_token updated = access_token d
                 \<and> strava_refresh_token updated = refresh_token d
                 \<and> strava_token_expires_at updated = expires_at d * 1000
                 \<and> updated \<in> set (profiles (snd (ensureValidTokens quiet_env 1000000 stale_profile stale_world))))"
    by blast+
  from C answer have D: "\<exists>updated.
         fst (ensureValidTokens quiet_env 1000000 stale_profile stale_world) = Inr updated
         \<and> strava_access_token updated = access_token \<lparr>access_token = ''t1'', refresh_token = ''r1'', expires_at = 7200\<rparr>
         \<and> strava_refresh_token updated = refresh_token \<lparr>access_token = ''t1'', refresh_token = ''r1'', expires_at = 7200\<rparr>
         \<and> strava_token_expires_at updated = expires_at \<lparr>access_token = ''t1'', refresh_token = ''r1'', expires_at = 7200\<rparr> * 1000
         \<and> updated \<in> set (profiles (snd (ensureValidTokens quiet_env 1000000 stale_profile stale_world)))"
    by blast
  show ?thesis using A B D none by simp
qed

subsection \<open>A response that is not ok is not retried\<close>

declare fetch_pages.simps [simp del]

text \<open>
  Claim C3. The claim asks for one token refresh and one retry after a 401. The code
  does neither: on a platform that answers the first request with 401 and would
  answer the next with 200, \<open>fetchStravaActivity\<close> issues its one request and returns
  \<^verbatim>\<open>null\<close>, with no call of the refresh endpoint; and \<open>fetchStravaActivities\<close> issues
  its one listing request and returns the empty list.
\<close>

theorem fetch_unauthorized_not_retried:
  "fetchStravaActivity once_unauthorized_env 999 ''t0'' fresh_world
     = (Inr None, emit (Activity_request 999 ''t0'') fresh_world)
   \<and> refresh_calls (snd (fetchStravaActivity once_unauthorized_env 999 ''t0'' fresh_world)) = 0
   \<and> activity_endpoint once_unauthorized_env 1 999 ''t0'' = Reply 200 (run_activity 999)
   \<and> fetchStravaActivities once_unauthorized_env ''t0'' 0 fresh_world
     = (Inr [], emit (Listing_request ''t0'' 0 1 100) fresh_world)
   \<and> listing_endpoint once_unauthorized_env 1 ''t0'' 0 1 100 = Reply 200 [run_activity 1]"
proof -
  have s0: "step fresh_world = 0" by (simp add: step_def fresh_world_def)
  have a: "fetchStravaActivity once_unauthorized_env 999 ''t0'' fresh_world
     = (Inr None, emit (Activity_request 999 ''t0'') fresh_world)"
    by (simp add: fetchStravaActivity_def get_activity_def s0 once_unauthorized_env_def ok_def)
  have b: "refresh_calls (emit (Activity_request 999 ''t0'') fresh_world) = 0"
    by (simp add: refresh_calls_def fresh_world_def is_refresh_def)
  have c: "fetchStravaActivities once_unauthorized_env ''t0'' 0 fresh_world
     = (Inr [], emit (Listing_request ''t0'' 0 1 100) fresh_world)"
    unfolding fetchStravaActivities_def
    by (subst fetch_pages.simps) (simp add: get_listing_def s0 once_unauthorized_env_def ok_def)
  show ?thesis using a b c by (simp add: once_unauthorized_env_def)
qed

subsection \<open>The callback address of the login\<close>

text \<open>
  Claim C9. The callback address \<^verbatim>\<open>http://example.com/localhost\<close> is plaintext and
  its host is not a loopback host; \<open>handleLogin\<close> takes it for local development,
  because the text \<^verbatim>\<open>localhost\<close> occurs in it: it stores a CSRF state and answers
  with the redirect.
\<close>

theorem handleLogin_accepts_plaintext:
  "fst (handleLogin plaintext_env 0 fresh_world)
     = Inr (redirect (Authorize ''abc'' ''http://example.com/localhost''
              ''read,activity:read_all,activity:write'' ''uuid''))
   \<and> oauth_states (snd (handleLogin plaintext_env 0 fresh_world))
     = [\<lparr>state = ''uuid'', state_created_at = 0\<rparr>]"
  by (simp add: handleLogin_def plaintext_env_def quiet_env_def insert_state_def fresh_world_def
        step_def Let_def)

text \<open>
  A plaintext address in which neither \<^verbatim>\<open>localhost\<close> nor \<^verbatim>\<open>127.0.0.1\<close> occurs is
  refused before anything is stored.
\<close>

lemma handleLogin_rejects_plaintext:
  assumes "STRAVA_CLIENT_ID (config env) = Some clientId" and "clientId \<noteq> []"
    and "STRAVA_REDIRECT_URI (config env) = Some redirectUri" and "redirectUri \<noteq> []"
    and "\<not> startsWith redirectUri ''https://''"
    and "\<not> str_includes redirectUri ''localhost''"
    and "\<not> str_includes redirectUri ''127.0.0.1''"
  shows "handleLogin env now w = (Inl Https_required, w)"
  using assms by (simp add: handleLogin_def)

theorem handleLogin_rejects_plaintext_witness:
  "handleLogin (quiet_env\<lparr>config := (config quiet_env)\<lparr>STRAVA_REDIRECT_URI := Some ''http://x/cb''\<rparr>\<rparr>)
      0 fresh_world = (Inl Https_required, fresh_world)"
  by (rule handleLogin_rejects_plaintext [of _ "''abc''" "''http://x/cb''"])
     (simp_all add: quiet_env_def)

subsection \<open>Upsert keyed on the remote id\<close>












subsection \<open>An account that is not connected\<close>

lemma select_profile_miss:
  assumes "\<forall>p\<in>set (profiles w). strava_athlete_id p \<noteq> Some a"
  shows "select_profile env a w = (None, emit (Select_profile a) w)"
proof -
  have "filter (\<lambda>p. strava_athlete_id p = Some a) (profiles w) = []"
    using assms by (simp add: filter_empty_conv)
  then show ?thesis by (simp add: select_profile_def single_def)
qed

text \<open>
  Claim C7. When no stored profile has the athlete id: an event delivery for that
  owner is answered 200 \<^verbatim>\<open>OK\<close>, and all it issued is the profile lookup (nothing at
  all for an event that is not an activity creation or update); a sync request for
  that athlete id (one the handler does not take for missing, so not 0) is answered
  404 \<^verbatim>\<open>Profile not found\<close> after the profile lookup alone. Neither path refreshes a
  token, fetches from the platform or upserts.
\<close>

theorem account_miss_paths:
  assumes miss: "\<forall>p\<in>set (profiles w). strava_athlete_id p \<noteq> Some a"
    and hook: "req_method hook = ''POST''" "req_body hook = Some ev" "owner_id ev = a"
    and sync: "req_method sreq = ''POST''" "req_body sreq = Some b" "b_athlete_id b = Some a"
    and given: "a \<noteq> 0"
  shows "strava_webhook env now hook w =
           (text_response 200 ''OK'',
            if object_type ev = ''activity''
               \<and> (aspect_type ev = ''create'' \<or> aspect_type ev = ''update'')
            then emit (Select_profile a) w else w)
         \<and> strava_sync env now sreq w =
           (\<lparr>status = 404, body = Error_text ''Profile not found'', location = None\<rparr>,
            emit (Select_profile a) w)"
proof
  show "strava_webhook env now hook w =
           (text_response 200 ''OK'',
            if object_type ev = ''activity''
               \<and> (aspect_type ev = ''create'' \<or> aspect_type ev = ''update'')
            then emit (Select_profile a) w else w)"
    using hook select_profile_miss [OF miss, of env]
    by (simp add: strava_webhook_def handleWebhookEvent_def)
  show "strava_sync env now sreq w =
           (\<lparr>status = 404, body = Error_text ''Profile not found'', location = None\<rparr>,
            emit (Select_profile a) w)"
    using sync given select_profile_miss [OF miss, of env]
    by (simp add: strava_sync_def sync_try_def)
qed

theorem account_miss_paths_witness:
  "strava_webhook quiet_env 0
     \<lparr>req_method = ''POST'', req_query = [],
      req_body = Some \<lparr>object_type = ''activity'', aspect_type = ''create'',
                        owner_id = 7, object_id = 999\<rparr>\<rparr> fresh_world
     = (text_response 200 ''OK'', emit (Select_profile 7) fresh_world)
   \<and> strava_sync quiet_env 0
     \<lparr>req_method = ''POST'', req_query = [],
      req_body = Some \<lparr>b_athlete_id = Some 7, b_weeks = None\<rparr>\<rparr> fresh_world
     = (\<lparr>status = 404, body = Error_text ''Profile not found'', location = None\<rparr>,
        emit (Select_profile 7) fresh_world)"
proof -
  have miss: "\<forall>p\<in>set (profiles fresh_world). strava_athlete_id p \<noteq> Some 7"
    by (simp add: fresh_world_def fresh_profile_def)
  show ?thesis
    using account_miss_paths [OF miss,
        of "\<lparr>req_method = ''POST'', req_query = [],
             req_body = Some \<lparr>object_type = ''activity'', aspect_type = ''create'',
                               owner_id = 7, object_id = 999\<rparr>\<rparr>"
           "\<lparr>object_type = ''activity'', aspect_type = ''create'', owner_id = 7, object_id = 999\<rparr>"
           "\<lparr>req_method = ''POST'', req_query = [],
             req_body = Some \<lparr>b_athlete_id = Some 7, b_weeks = None\<rparr>\<rparr>"
           "\<lparr>b_athlete_id = Some 7, b_weeks = None\<rparr>" quiet_env 0]
    by simp
qed

subsection \<open>What the webhook answers\<close>

lemma fetchStravaActivity_answered:
  assumes "activity_endpoint env (step w) i tok = Reply st a"
  shows "fetchStravaActivity env i tok w =
           (Inr (if ok st then Some a else None), emit (Activity_request i tok) w)"
  using assms by (simp add: fetchStravaActivity_def get_activity_def)

text \<open>
  A delivery with no object to read in its body, which is a body that is not JSON or is
  the JSON \<^verbatim>\<open>null\<close>, is answered 500 by the \<^verbatim>\<open>catch\<close> branch of the handler, before the
  store or the platform is asked anything.
\<close>

lemma webhook_unreadable_body:
  "req_method req = ''POST'' \<Longrightarrow> req_body req = None \<Longrightarrow>
   strava_webhook env now req w = (error_response Body_unreadable, w)"
  by (simp add: strava_webhook_def handleWebhookEvent_def)

text \<open>
  Claim C2, the claim as stated fails: a delivery for a connected account whose token
  has to be refreshed, on a platform that refuses the refresh, is answered 500 by the
  \<^verbatim>\<open>catch\<close> branch of the handler.
\<close>

theorem webhook_refresh_failure_answers_500:
  "req_method activity_created = ''POST''
   \<and> fst (strava_webhook revoked_env 1000000 activity_created stale_world)
       = error_response Token_refresh_failed
   \<and> status (fst (strava_webhook revoked_env 1000000 activity_created stale_world)) = 500"
proof -
  have sel: "select_profile revoked_env 42 stale_world
               = (Some stale_profile, emit (Select_profile 42) stale_world)"
    by (simp add: select_profile_def revoked_env_def quiet_env_def stale_world_def single_def
          stale_profile_def fresh_profile_def)
  have stale: "expiresAt stale_profile \<le> of_int (now_seconds 1000000 + 60)"
    by (simp add: expiresAt_def now_seconds_def stale_profile_def fresh_profile_def)
  have ens: "fst (ensureValidTokens revoked_env 1000000 stale_profile (emit (Select_profile 42) stale_world))
               = Inl Token_refresh_failed"
    using stale
    by (simp add: ensureValidTokens_def refreshTokens_def post_refresh_def revoked_env_def ok_def)
  have "fst (handleWebhookEvent revoked_env 1000000 activity_created stale_world)
          = Inl Token_refresh_failed"
    using sel ens
    by (cases "ensureValidTokens revoked_env 1000000 stale_profile (emit (Select_profile 42) stale_world)")
       (simp add: handleWebhookEvent_def activity_created_def)
  then show ?thesis
    by (cases "handleWebhookEvent revoked_env 1000000 activity_created stale_world")
       (simp add: strava_webhook_def activity_created_def error_response_def)
qed

text \<open>
  Claim C2, amended. An event delivery whose body is a JSON object with the four fields
  of an event is answered 200 \<^verbatim>\<open>OK\<close> whenever neither the token refresh nor the
  activity request throws: that is, when the event is not an activity creation or
  update, or no profile is connected, or the token step returns tokens and the platform
  answers the activity request at all. The status of that answer, the category of the
  activity and the outcome of the upsert do not matter.
\<close>

theorem webhook_acknowledges:
  assumes post: "req_method req = ''POST''" and parsed: "req_body req = Some ev"
    and nothrow: "\<forall>p w1. object_type ev = ''activity''
           \<and> (aspect_type ev = ''create'' \<or> aspect_type ev = ''update'')
           \<and> select_profile env (owner_id ev) w = (Some p, w1) \<longrightarrow>
           (\<exists>tks w2. ensureValidTokens env now p w1 = (Inr tks, w2)
              \<and> activity_endpoint env (step w2) (object_id ev) (strava_access_token tks) \<noteq> Rejected)"
  shows "fst (strava_webhook env now req w) = text_response 200 ''OK''"
proof -
  have "fst (handleWebhookEvent env now req w) = Inr (text_response 200 ''OK'')"
  proof (cases "object_type ev = ''activity''
                 \<and> (aspect_type ev = ''create'' \<or> aspect_type ev = ''update'')")
    case False
    then show ?thesis using parsed by (auto simp: handleWebhookEvent_def)
  next
    case True
    obtain po w1 where sel: "select_profile env (owner_id ev) w = (po, w1)"
      by (cases "select_profile env (owner_id ev) w")
    show ?thesis
    proof (cases po)
      case None
      with True parsed sel show ?thesis by (auto simp: handleWebhookEvent_def)
    next
      case (Some p)
      with True sel nothrow obtain tks w2 where
        ens: "ensureValidTokens env now p w1 = (Inr tks, w2)" and
        ans: "activity_endpoint env (step w2) (object_id ev) (strava_access_token tks) \<noteq> Rejected"
        by blast
      from ans obtain st a where
        "activity_endpoint env (step w2) (object_id ev) (strava_access_token tks) = Reply st a"
        by (cases "activity_endpoint env (step w2) (object_id ev) (strava_access_token tks)") auto
      then have fet: "fetchStravaActivity env (object_id ev) (strava_access_token tks) w2 =
           (Inr (if ok st then Some a else None),
            emit (Activity_request (object_id ev) (strava_access_token tks)) w2)"
        by (rule fetchStravaActivity_answered)
      from True parsed sel Some ens fet show ?thesis
        by (auto simp: handleWebhookEvent_def split: prod.splits)
    qed
  qed
  then show ?thesis using post
    by (cases "handleWebhookEvent env now req w") (simp add: strava_webhook_def)
qed

theorem webhook_acknowledges_witness:
  "fst (strava_webhook failing_store_env 1000000 activity_created fresh_world)
     = text_response 200 ''OK''
   \<and> store_fails failing_store_env 2
   \<and> snd (strava_webhook failing_store_env 1000000 activity_created fresh_world)
     = fresh_world\<lparr>trace := [Select_profile 42, Activity_request 999 ''t0'', Upsert_activity 999]\<rparr>"
proof -
  let ?ev = "\<lparr>object_type = ''activity'', aspect_type = ''create'', owner_id = 42, object_id = 999\<rparr>"
  have post: "req_method activity_created = ''POST''"
    and parsed: "req_body activity_created = Some ?ev"
    by (simp_all add: activity_created_def)
  have sel: "select_profile failing_store_env 42 fresh_world
               = (Some fresh_profile, emit (Select_profile 42) fresh_world)"
    by (simp add: select_profile_def failing_store_env_def quiet_env_def fresh_world_def
          single_def step_def fresh_profile_def)
  have fresh: "\<not> expiresAt fresh_profile \<le> of_int (now_seconds 1000000 + 60)"
    by (simp add: expiresAt_def now_seconds_def fresh_profile_def)
  have ens: "ensureValidTokens failing_store_env 1000000 fresh_profile (emit (Select_profile 42) fresh_world)
               = (Inr fresh_profile, emit (Select_profile 42) fresh_world)"
    using fresh by (simp add: ensureValidTokens_def)
  have ans: "\<And>k i tok. activity_endpoint failing_store_env k i tok = Reply 200 (run_activity i)"
    by (simp add: failing_store_env_def)
  have nothrow: "\<forall>p w1. object_type ?ev = ''activity''
           \<and> (aspect_type ?ev = ''create'' \<or> aspect_type ?ev = ''update'')
           \<and> select_profile failing_store_env (owner_id ?ev) fresh_world = (Some p, w1) \<longrightarrow>
           (\<exists>tks w2. ensureValidTokens failing_store_env 1000000 p w1 = (Inr tks, w2)
              \<and> activity_endpoint failing_store_env (step w2) (object_id ?ev) (strava_access_token tks)
                  \<noteq> Rejected)"
    using sel ens by (simp add: ans)
  have answer: "fst (strava_webhook failing_store_env 1000000 activity_created fresh_world)
     = text_response 200 ''OK''"
    by (rule webhook_acknowledges [OF post parsed nothrow])
  have fails: "store_fails failing_store_env 2"
    by (simp add: failing_store_env_def)
  have tok: "strava_access_token fresh_profile = ''t0''" and pid: "profile_id fresh_profile = ''u1''"
    by (simp_all add: fresh_profile_def)
  have s2: "step fresh_world = 0"
    by (simp add: step_def fresh_world_def)
  have run: "a_type (run_activity 999) = ''Run''"
    by (simp add: run_activity_def)
  have fet: "fetchStravaActivity failing_store_env 999 ''t0'' (emit (Select_profile 42) fresh_world)
        = (Inr (Some (run_activity 999)),
           emit (Activity_request 999 ''t0'') (emit (Select_profile 42) fresh_world))"
    by (simp add: fetchStravaActivity_answered [OF ans] ok_def)
  have ups: "upsert_activity failing_store_env 1000000 (activity_values_of ''u1'' (run_activity 999))
               (emit (Activity_request 999 ''t0'') (emit (Select_profile 42) fresh_world))
        = (False, emit (Upsert_activity 999)
             (emit (Activity_request 999 ''t0'') (emit (Select_profile 42) fresh_world)))"
    using fails by (simp add: upsert_activity_def s2 activity_values_of_def run_activity_def
          numeral_2_eq_2 [symmetric])
  have world: "snd (strava_webhook failing_store_env 1000000 activity_created fresh_world)
     = fresh_world\<lparr>trace := [Select_profile 42, Activity_request 999 ''t0'', Upsert_activity 999]\<rparr>"
    using sel ens fet ups run
    by (simp add: strava_webhook_def handleWebhookEvent_def activity_created_def tok pid emit_def
          fresh_world_def)
  show ?thesis using answer fails world by simp
qed

subsection \<open>The listing loop in closed form\<close>

lemma takeWhile_always: "takeWhile (\<lambda>x. True) xs = xs"
  by (induction xs) simp_all

lemma fetch_pages_closed:
  "1 \<le> page \<Longrightarrow> page \<le> 10 \<Longrightarrow>
   fetch_pages env tok after page acts w =
     (if reply_at env (step w) page tok after
           (page + length (takeWhile (\<lambda>p. full_page (reply_at env (step w) page tok after p)) [page..<10]))
         = Rejected
      then Inl Fetch_rejected
      else Inr (acts @ concat (map (\<lambda>p. batch_of (reply_at env (step w) page tok after p))
             [page..<Suc (page + length (takeWhile (\<lambda>p. full_page (reply_at env (step w) page tok after p)) [page..<10]))])),
      w\<lparr>trace := trace w @ map (\<lambda>p. Listing_request tok after p 100)
             [page..<Suc (page + length (takeWhile (\<lambda>p. full_page (reply_at env (step w) page tok after p)) [page..<10]))]\<rparr>)"
proof (induction env tok after page acts w rule: fetch_pages.induct)
  case (1 env tok after page acts w)
  let ?R = "reply_at env (step w) page tok after"
  let ?r = "listing_endpoint env (step w) tok after page 100"
  let ?w1 = "emit (Listing_request tok after page 100) w"
  have r: "?R page = ?r" by (simp add: reply_at_def)
  have one: "[page..<Suc page] = [page]" by simp
  have w1: "?w1 = w\<lparr>trace := trace w @ [Listing_request tok after page 100]\<rparr>"
    by (simp add: emit_def)
  show ?case
  proof (cases "full_page ?r")
    case False
    have tw: "takeWhile (\<lambda>p. full_page (?R p)) [page..<10] = []"
    proof (cases "page < 10")
      case True
      then have "[page..<10] = page # [Suc page..<10]" by (simp add: upt_conv_Cons)
      with False r show ?thesis by simp
    next
      case False
      then show ?thesis by simp
    qed
    show ?thesis
    proof (cases ?r)
      case Rejected
      then show ?thesis
        by (subst fetch_pages.simps) (simp add: tw r get_listing_def w1)
    next
      case (Reply st batch)
      with False have "\<not> ok st \<or> batch = []" by (simp add: full_page_def)
      with Reply show ?thesis
        by (subst fetch_pages.simps) (auto simp: tw r get_listing_def w1 batch_of_def)
    qed
  next
    case True
    then obtain st batch where rep: "?r = Reply st batch" and okst: "ok st" and ne: "batch \<noteq> []"
      by (cases ?r) (auto simp: full_page_def)
    have bo: "batch_of ?r = batch" using rep okst by (simp add: batch_of_def)
    show ?thesis
    proof (cases "page < 10")
      case False
      with "1.prems" have p10: "page = 10" by simp
      show ?thesis
        using rep okst ne
        by (subst fetch_pages.simps) (simp add: p10 get_listing_def w1 r [unfolded p10] reply_at_def batch_of_def)
    next
      case lt: True
      have upt: "[page..<10] = page # [Suc page..<10]" using lt by (simp add: upt_conv_Cons)
      have R': "reply_at env (Suc (step w)) (Suc page) tok after p = ?R p" if "Suc page \<le> p" for p
      proof -
        from that have "Suc (step w) + (p - Suc page) = step w + (p - page)" by arith
        then show ?thesis by (simp only: reply_at_def)
      qed
      have tw: "takeWhile (\<lambda>p. full_page (reply_at env (Suc (step w)) (Suc page) tok after p)) [Suc page..<10]
                = takeWhile (\<lambda>p. full_page (?R p)) [Suc page..<10]"
        by (rule takeWhile_cong) (simp_all add: R')
      define m where "m = length (takeWhile (\<lambda>p. full_page (?R p)) [Suc page..<10])"
      have n: "page + length (takeWhile (\<lambda>p. full_page (?R p)) [page..<10]) = Suc page + m"
        using True r by (simp add: upt m_def)
      have mp: "map (\<lambda>p. batch_of (reply_at env (Suc (step w)) (Suc page) tok after p)) [Suc page..<Suc (Suc page + m)]
                = map (\<lambda>p. batch_of (?R p)) [Suc page..<Suc (Suc page + m)]"
      proof (rule map_cong [OF refl])
        fix x assume "x \<in> set [Suc page..<Suc (Suc page + m)]"
        then have "Suc page \<le> x" by (simp only: set_upt atLeastLessThan_iff)
        then show "batch_of (reply_at env (Suc (step w)) (Suc page) tok after x) = batch_of (?R x)"
          by (simp only: R')
      qed
      have IH: "fetch_pages env tok after (page + 1) (acts @ batch) ?w1 =
         (if reply_at env (Suc (step w)) (Suc page) tok after (Suc page + m) = Rejected
          then Inl Fetch_rejected
          else Inr ((acts @ batch) @ concat (map (\<lambda>p. batch_of (reply_at env (Suc (step w)) (Suc page) tok after p))
                 [Suc page..<Suc (Suc page + m)])),
          ?w1\<lparr>trace := trace ?w1 @ map (\<lambda>p. Listing_request tok after p 100)
                 [Suc page..<Suc (Suc page + m)]\<rparr>)"
        using "1.IH" [of "Reply st batch" ?w1 st batch] rep okst ne lt
        by (simp add: get_listing_def tw m_def)
      have split: "[page..<Suc (Suc page + m)] = page # [Suc page..<Suc (Suc page + m)]"
        by (simp add: upt_conv_Cons)
      have Rn: "reply_at env (Suc (step w)) (Suc page) tok after (Suc page + m) = ?R (Suc page + m)"
        by (rule R') simp
      have eq: "fetch_pages env tok after page acts w = fetch_pages env tok after (page + 1) (acts @ batch) ?w1"
        using rep okst ne lt by (subst fetch_pages.simps) (simp add: get_listing_def)
      have "fetch_pages env tok after page acts w =
         (if ?R (Suc page + m) = Rejected
          then Inl Fetch_rejected
          else Inr (acts @ concat (map (\<lambda>p. batch_of (?R p)) [page..<Suc (Suc page + m)])),
          w\<lparr>trace := trace w @ map (\<lambda>p. Listing_request tok after p 100)
                 [page..<Suc (Suc page + m)]\<rparr>)"
        unfolding eq IH mp Rn split by (simp add: bo r w1)
      then show ?thesis unfolding n .
    qed
  qed
qed

lemma fetchStravaActivities_closed:
  "fetchStravaActivities env tok after w =
     (if reply_at env (step w) 1 tok after (last_page env w tok after) = Rejected
      then Inl Fetch_rejected
      else Inr (concat (map (\<lambda>p. batch_of (reply_at env (step w) 1 tok after p))
                          [1..<Suc (last_page env w tok after)])),
      w\<lparr>trace := trace w @ map (\<lambda>p. Listing_request tok after p 100)
                                  [1..<Suc (last_page env w tok after)]\<rparr>)"
  using fetch_pages_closed [of 1 env tok after "[]" w]
  by (simp add: fetchStravaActivities_def last_page_def)

lemma last_page_ceiling: "last_page env w tok after \<le> 10"
proof -
  have "length (takeWhile (\<lambda>p. full_page (reply_at env (step w) 1 tok after p)) [1..<10])
          \<le> length [1..<10::nat]"
    by (rule length_takeWhile_le)
  then show ?thesis by (simp add: last_page_def)
qed

text \<open>
  Claim C8. \<open>fetchStravaActivities\<close> is a total function: the loop ends. It requests
  the pages 1 to \<open>last_page\<close> with 100 items a page and nothing else, and \<open>last_page\<close>
  is at most 10 and is the first page that is not full, when one of the first nine is
  not (an empty page ends the loop; so does an answer that is not ok). It returns what
  the answers carried, the tenth page included when the ceiling is reached; it throws
  only when the last request was rejected.
\<close>

theorem fetchStravaActivities_bounded:
  "fetchStravaActivities env tok after w =
     (if reply_at env (step w) 1 tok after (last_page env w tok after) = Rejected
      then Inl Fetch_rejected
      else Inr (concat (map (\<lambda>p. batch_of (reply_at env (step w) 1 tok after p))
                          [1..<Suc (last_page env w tok after)])),
      w\<lparr>trace := trace w @ map (\<lambda>p. Listing_request tok after p 100)
                                  [1..<Suc (last_page env w tok after)]\<rparr>)
   \<and> last_page env w tok after \<le> 10
   \<and> last_page env w tok after =
       Suc (length (takeWhile (\<lambda>p. full_page (reply_at env (step w) 1 tok after p)) [1..<10]))"
  using fetchStravaActivities_closed [of env tok after w] last_page_ceiling [of env w tok after]
  by (simp add: last_page_def)

theorem fetchStravaActivities_bounded_witness:
  "last_page endless_env fresh_world ''t0'' 0 = 10
   \<and> fetchStravaActivities endless_env ''t0'' 0 fresh_world =
       (Inr (map (\<lambda>p. run_activity (int p)) [1..<11]),
        fresh_world\<lparr>trace := map (\<lambda>p. Listing_request ''t0'' 0 p 100) [1..<11]\<rparr>)"
proof -
  have rep: "\<And>s p0 p. reply_at endless_env s p0 ''t0'' 0 p = Reply 200 [run_activity (int p)]"
    by (simp add: reply_at_def endless_env_def)
  have lp: "last_page endless_env fresh_world ''t0'' 0 = 10"
    by (simp add: last_page_def rep full_page_def ok_def takeWhile_always)
  have tr: "trace fresh_world = []" by (simp add: fresh_world_def)
  show ?thesis
    using fetchStravaActivities_bounded [of endless_env "''t0''" 0 fresh_world]
    by (simp add: lp rep batch_of_def ok_def tr del: upt_Suc)
qed

lemma last_page_stop:
  assumes full: "\<forall>p\<in>{1..k}. full_page (reply_at env (step w) 1 tok after p)"
    and stop: "\<not> full_page (reply_at env (step w) 1 tok after (Suc k))"
    and k: "k < 10"
  shows "last_page env w tok after = Suc k"
proof -
  let ?P = "\<lambda>p. full_page (reply_at env (step w) 1 tok after p)"
  have all: "\<forall>p\<in>set [1..<Suc k]. ?P p"
  proof
    fix p assume "p \<in> set [1..<Suc k]"
    then have "p \<in> {1..k}" by auto
    with full show "?P p" by blast
  qed
  show ?thesis
  proof (cases "k = 9")
    case True
    with all have "\<forall>p\<in>set [1..<10]. ?P p" by simp
    then have "takeWhile ?P [1..<10] = [1..<10]"
      by (simp only: takeWhile_eq_all_conv)
    then have "length (takeWhile ?P [1..<10]) = length [1..<10::nat]"
      by (rule arg_cong)
    then have "length (takeWhile ?P [1..<10]) = 9" by simp
    with True show ?thesis by (simp only: last_page_def)
  next
    case False
    with k have k9: "Suc k < 10" by simp
    have "[1..<Suc k + (9 - k)] = [1..<Suc k] @ [Suc k..<Suc k + (9 - k)]"
      by (rule upt_add_eq_append) simp
    moreover have "Suc k + (9 - k) = 10" using k by simp
    moreover have "[Suc k..<10] = Suc k # [Suc (Suc k)..<10]"
      using k9 by (rule upt_conv_Cons)
    ultimately have "[1..<10] = [1..<Suc k] @ (Suc k # [Suc (Suc k)..<10])"
      by (simp only:)
    moreover have "takeWhile ?P ([1..<Suc k] @ (Suc k # [Suc (Suc k)..<10])) = takeWhile ?P [1..<Suc k]"
      by (rule takeWhile_tail [of ?P "Suc k"]) (rule stop)
    ultimately have "takeWhile ?P [1..<10] = takeWhile ?P [1..<Suc k]"
      by (simp only:)
    also have "\<dots> = [1..<Suc k]"
      using all by (simp only: takeWhile_eq_all_conv)
    finally have "length (takeWhile ?P [1..<10]) = length [1..<Suc k]"
      by (rule arg_cong)
    then have "length (takeWhile ?P [1..<10]) = k" by simp
    then show ?thesis by (simp only: last_page_def)
  qed
qed

subsection \<open>The summary of a sync\<close>

lemma sync_runs_counts:
  "sync_runs env now p tks runs s f w = (Inr (s', f'), w') \<Longrightarrow> s' + f' = s + f + length runs"
proof (induction runs arbitrary: s f w)
  case Nil
  then show ?case by simp
next
  case (Cons a runs)
  obtain r w1 where fet: "fetchStravaActivity env (a_id a) (strava_access_token tks) w = (r, w1)"
    by (cases "fetchStravaActivity env (a_id a) (strava_access_token tks) w")
  show ?case
  proof (cases r)
    case (Inl e)
    with Cons.prems fet show ?thesis by simp
  next
    case (Inr found)
    show ?thesis
    proof (cases found)
      case None
      with Cons.prems fet Inr
      have "sync_runs env now p tks runs s (f + 1) w1 = (Inr (s', f'), w')" by simp
      from Cons.IH [OF this] show ?thesis by simp
    next
      case (Some full)
      obtain u w2 where ups:
        "upsert_activity env now (activity_values_of (profile_id p) full) w1 = (u, w2)"
        by (cases "upsert_activity env now (activity_values_of (profile_id p) full) w1")
      show ?thesis
      proof (cases u)
        case True
        with Cons.prems fet Inr Some ups
        have "sync_runs env now p tks runs (s + 1) f w2 = (Inr (s', f'), w')" by simp
        from Cons.IH [OF this] show ?thesis by simp
      next
        case False
        with Cons.prems fet Inr Some ups
        have "sync_runs env now p tks runs s (f + 1) w2 = (Inr (s', f'), w')" by simp
        from Cons.IH [OF this] show ?thesis by simp
      qed
    qed
  qed
qed

lemma sync_runs_returns:
  assumes answered: "\<forall>k i t. activity_endpoint env k i t \<noteq> Rejected"
  shows "\<exists>s' f' w'. sync_runs env now p tks runs s f w = (Inr (s', f'), w')"
proof (induction runs arbitrary: s f w)
  case Nil
  then show ?case by simp
next
  case (Cons a runs)
  from answered obtain st full where
    "activity_endpoint env (step w) (a_id a) (strava_access_token tks) = Reply st full"
    by (cases "activity_endpoint env (step w) (a_id a) (strava_access_token tks)") auto
  then have fet: "fetchStravaActivity env (a_id a) (strava_access_token tks) w =
      (Inr (if ok st then Some full else None),
       emit (Activity_request (a_id a) (strava_access_token tks)) w)"
    by (rule fetchStravaActivity_answered)
  show ?case
  proof (cases "ok st")
    case False
    with fet Cons.IH [of s "f + 1"] show ?thesis by simp
  next
    case True
    obtain u w2 where ups:
      "upsert_activity env now (activity_values_of (profile_id p) full)
         (emit (Activity_request (a_id a) (strava_access_token tks)) w) = (u, w2)"
      by (cases "upsert_activity env now (activity_values_of (profile_id p) full)
         (emit (Activity_request (a_id a) (strava_access_token tks)) w)")
    show ?thesis
    proof (cases u)
      case True
      with \<open>ok st\<close> fet ups Cons.IH [of "s + 1" f w2] show ?thesis by simp
    next
      case False
      with \<open>ok st\<close> fet ups Cons.IH [of s "f + 1" w2] show ?thesis by simp
    qed
  qed
qed

lemma sync_runs_all_synced:
  assumes fetched: "\<forall>k i t. \<exists>st a. activity_endpoint env k i t = Reply st a \<and> ok st"
    and stored: "\<forall>k. \<not> store_fails env k"
  shows "fst (sync_runs env now p tks runs s f w) = Inr (s + length runs, f)"
proof (induction runs arbitrary: s w)
  case Nil
  then show ?case by simp
next
  case (Cons a runs)
  from fetched obtain st full where
    rep: "activity_endpoint env (step w) (a_id a) (strava_access_token tks) = Reply st full"
    and "ok st"
    by blast
  from rep have fet: "fetchStravaActivity env (a_id a) (strava_access_token tks) w =
      (Inr (if ok st then Some full else None),
       emit (Activity_request (a_id a) (strava_access_token tks)) w)"
    by (rule fetchStravaActivity_answered)
  obtain w2 where ups:
      "upsert_activity env now (activity_values_of (profile_id p) full)
         (emit (Activity_request (a_id a) (strava_access_token tks)) w) = (True, w2)"
    using stored by (simp add: upsert_activity_def)
  from \<open>ok st\<close> fet ups Cons.IH [of "s + 1" w2] show ?case by simp
qed

lemma sync_try_summary:
  assumes "req_body req = Some b" and "b_athlete_id b = Some a" and "a \<noteq> 0"
    and "select_profile env a w = (Some p, w1)"
    and "ensureValidTokens env now p w1 = (Inr tks, w2)"
    and "fetchStravaActivities env (strava_access_token tks) (after_of now (weeks_of b)) w2
           = (Inr acts, w3)"
    and "sync_runs env now p tks (filter (\<lambda>a. a_type a = ''Run'') acts) 0 0 w3 = (Inr (s, f), w4)"
  shows "sync_try env now req w =
           (Inr \<lparr>status = 200,
                 body = Summary_json
                   \<lparr>success = True, total_fetched = length acts,
                    runs_found = length (filter (\<lambda>a. a_type a = ''Run'') acts),
                    synced = s, failed = f\<rparr>,
                 location = None\<rparr>, w4)"
  using assms by (simp add: sync_try_def Let_def)


lemma strava_sync_post:
  "req_method req = ''POST'' \<Longrightarrow> sync_try env now req w = (Inr resp, w') \<Longrightarrow>
   strava_sync env now req w = (resp, w')"
  by (simp add: strava_sync_def)

lemma sync_answers_summary:
  assumes req: "req_method req = ''POST''" "req_body req = Some b" "b_athlete_id b = Some a" "a \<noteq> 0"
    and sel: "select_profile env a w = (Some p, w1)"
    and ens: "ensureValidTokens env now p w1 = (Inr tks, w2)"
    and lst: "fetchStravaActivities env (strava_access_token tks) (after_of now (weeks_of b)) w2
                = (Inr acts, w3)"
    and answered: "\<forall>k i t. activity_endpoint env k i t \<noteq> Rejected"
  shows "\<exists>s f. fst (strava_sync env now req w) =
             \<lparr>status = 200,
              body = Summary_json
                \<lparr>success = True, total_fetched = length acts,
                 runs_found = length (filter (\<lambda>a. a_type a = ''Run'') acts),
                 synced = s, failed = f\<rparr>,
              location = None\<rparr>
           \<and> s + f = length (filter (\<lambda>a. a_type a = ''Run'') acts)"
proof -
  from sync_runs_returns [OF answered, of now p tks "filter (\<lambda>a. a_type a = ''Run'') acts" 0 0 w3]
  obtain s f w4 where
    runs: "sync_runs env now p tks (filter (\<lambda>a. a_type a = ''Run'') acts) 0 0 w3 = (Inr (s, f), w4)"
    by blast
  from sync_runs_counts [OF runs]
  have sum: "s + f = length (filter (\<lambda>a. a_type a = ''Run'') acts)" by simp
  from strava_sync_post [OF req(1) sync_try_summary [OF req(2-4) sel ens lst runs]] sum
  show ?thesis by simp
qed

text \<open>
  Claim C6. For a sync request that finds its profile and gets its tokens: whenever
  the listing returns and no detail request is rejected, the answer is 200 with
  \<open>total_fetched\<close> the number of listed items, \<open>runs_found\<close> the number of them whose
  type is \<^verbatim>\<open>Run\<close>, and \<open>synced + failed = runs_found\<close>. When the listing answers with
  pages of 100, 100 and 0 items, all of type \<^verbatim>\<open>Run\<close>, every detail request is answered
  ok and the store accepts every upsert, the summary is 200, 200, 200, 0.
\<close>

theorem sync_summary_counts:
  assumes req: "req_method req = ''POST''" "req_body req = Some b" "b_athlete_id b = Some a" "a \<noteq> 0"
    and sel: "select_profile env a w = (Some p, w1)"
    and ens: "ensureValidTokens env now p w1 = (Inr tks, w2)"
  shows "((\<forall>k i t. activity_endpoint env k i t \<noteq> Rejected) \<longrightarrow>
          (\<forall>acts w3.
             fetchStravaActivities env (strava_access_token tks) (after_of now (weeks_of b)) w2
               = (Inr acts, w3) \<longrightarrow>
             (\<exists>s f. fst (strava_sync env now req w) =
                      \<lparr>status = 200,
                       body = Summary_json
                         \<lparr>success = True, total_fetched = length acts,
                          runs_found = length (filter (\<lambda>a. a_type a = ''Run'') acts),
                          synced = s, failed = f\<rparr>,
                       location = None\<rparr>
                    \<and> s + f = length (filter (\<lambda>a. a_type a = ''Run'') acts))))
       \<and> (reply_at env (step w2) 1 (strava_access_token tks) (after_of now (weeks_of b)) 1
              = Reply st1 page1 \<and> ok st1 \<and> length page1 = 100
          \<and> reply_at env (step w2) 1 (strava_access_token tks) (after_of now (weeks_of b)) 2
              = Reply st2 page2 \<and> ok st2 \<and> length page2 = 100
          \<and> reply_at env (step w2) 1 (strava_access_token tks) (after_of now (weeks_of b)) 3
              = Reply st3 [] \<and> ok st3
          \<and> (\<forall>a\<in>set (page1 @ page2). a_type a = ''Run'')
          \<and> (\<forall>k i t. \<exists>st a. activity_endpoint env k i t = Reply st a \<and> ok st)
          \<and> (\<forall>k. \<not> store_fails env k) \<longrightarrow>
          fst (strava_sync env now req w) =
            \<lparr>status = 200,
             body = Summary_json
               \<lparr>success = True, total_fetched = 200, runs_found = 200,
                synced = 200, failed = 0\<rparr>,
             location = None\<rparr>)"
proof (intro conjI impI allI)
  fix acts w3
  assume "\<forall>k i t. activity_endpoint env k i t \<noteq> Rejected"
    and "fetchStravaActivities env (strava_access_token tks) (after_of now (weeks_of b)) w2
           = (Inr acts, w3)"
  then show "\<exists>s f. fst (strava_sync env now req w) =
                      \<lparr>status = 200,
                       body = Summary_json
                         \<lparr>success = True, total_fetched = length acts,
                          runs_found = length (filter (\<lambda>a. a_type a = ''Run'') acts),
                          synced = s, failed = f\<rparr>,
                       location = None\<rparr>
                    \<and> s + f = length (filter (\<lambda>a. a_type a = ''Run'') acts)"
    using sync_answers_summary [OF req sel ens] by blast
next
  define tok where "tok = strava_access_token tks"
  define after where "after = after_of now (weeks_of b)"
  assume "reply_at env (step w2) 1 (strava_access_token tks) (after_of now (weeks_of b)) 1
              = Reply st1 page1 \<and> ok st1 \<and> length page1 = 100
          \<and> reply_at env (step w2) 1 (strava_access_token tks) (after_of now (weeks_of b)) 2
              = Reply st2 page2 \<and> ok st2 \<and> length page2 = 100
          \<and> reply_at env (step w2) 1 (strava_access_token tks) (after_of now (weeks_of b)) 3
              = Reply st3 [] \<and> ok st3
          \<and> (\<forall>a\<in>set (page1 @ page2). a_type a = ''Run'')
          \<and> (\<forall>k i t. \<exists>st a. activity_endpoint env k i t = Reply st a \<and> ok st)
          \<and> (\<forall>k. \<not> store_fails env k)"
  then have r1: "reply_at env (step w2) 1 tok after 1 = Reply st1 page1" and ok1: "ok st1"
    and l1: "length page1 = 100"
    and r2: "reply_at env (step w2) 1 tok after 2 = Reply st2 page2" and ok2: "ok st2"
    and l2: "length page2 = 100"
    and r3: "reply_at env (step w2) 1 tok after 3 = Reply st3 []" and ok3: "ok st3"
    and runs: "\<forall>a\<in>set (page1 @ page2). a_type a = ''Run''"
    and fetched: "\<forall>k i t. \<exists>st a. activity_endpoint env k i t = Reply st a \<and> ok st"
    and stored: "\<forall>k. \<not> store_fails env k"
    unfolding tok_def after_def by blast+
  have ne1: "page1 \<noteq> []" and ne2: "page2 \<noteq> []" using l1 l2 by auto
  have full: "\<forall>page\<in>{1..2}. full_page (reply_at env (step w2) 1 tok after page)"
  proof
    fix page :: nat assume "page \<in> {1..2}"
    then have "page = 1 \<or> page = 2" by auto
    then show "full_page (reply_at env (step w2) 1 tok after page)"
      using r1 ok1 ne1 r2 ok2 ne2 by (auto simp: full_page_def)
  qed
  have stop: "\<not> full_page (reply_at env (step w2) 1 tok after (Suc 2))"
    using r3 by (simp add: full_page_def eval_nat_numeral)
  have last: "last_page env w2 tok after = Suc 2"
    using full stop by (rule last_page_stop) simp
  have pages: "[1..<Suc (Suc 2)] = [1, 2, 3]"
    by (simp add: upt_rec)
  have listed: "concat (map (\<lambda>page. batch_of (reply_at env (step w2) 1 tok after page))
                   [1..<Suc (Suc 2)]) = page1 @ page2"
    using r1 ok1 r2 ok2 r3 ok3 by (simp only: pages) (simp add: batch_of_def)
  have answered_last: "reply_at env (step w2) 1 tok after (Suc 2) \<noteq> Rejected"
    using r3 by (simp add: eval_nat_numeral)
  obtain w3 where lst: "fetchStravaActivities env tok after w2 = (Inr (page1 @ page2), w3)"
    using fetchStravaActivities_closed [of env tok after w2] answered_last
    by (simp only: last listed if_False)
  have all_runs: "filter (\<lambda>a. a_type a = ''Run'') (page1 @ page2) = page1 @ page2"
    using runs by (simp only: filter_id_conv)
  have "fst (sync_runs env now p tks (page1 @ page2) 0 0 w3) = Inr (200, 0)"
    using sync_runs_all_synced [OF fetched stored, of now p tks "page1 @ page2" 0 0 w3] l1 l2
    by simp
  then obtain w4 where "sync_runs env now p tks (page1 @ page2) 0 0 w3 = (Inr (200, 0), w4)"
    by (cases "sync_runs env now p tks (page1 @ page2) 0 0 w3") simp
  then have loop:
    "sync_runs env now p tks (filter (\<lambda>a. a_type a = ''Run'') (page1 @ page2)) 0 0 w3
       = (Inr (200, 0), w4)"
    by (simp only: all_runs)
  note strava_sync_post [OF req(1)
      sync_try_summary [OF req(2-4) sel ens lst [unfolded tok_def after_def] loop]]
  then have "strava_sync env now req w =
           (\<lparr>status = 200,
              body = Summary_json
                \<lparr>success = True, total_fetched = length (page1 @ page2),
                 runs_found = length (page1 @ page2),
                 synced = 200, failed = 0\<rparr>,
              location = None\<rparr>, w4)"
    by (simp only: all_runs)
  then show "fst (strava_sync env now req w) =
            \<lparr>status = 200,
             body = Summary_json
               \<lparr>success = True, total_fetched = 200, runs_found = 200,
                synced = 200, failed = 0\<rparr>,
             location = None\<rparr>"
    using l1 l2 by simp
qed

theorem sync_summary_counts_witness:
  "fst (strava_sync two_pages_env 1000000 sync_42 fresh_world) =
     \<lparr>status = 200,
      body = Summary_json
        \<lparr>success = True, total_fetched = 200, runs_found = 200, synced = 200, failed = 0\<rparr>,
      location = None\<rparr>
   \<and> (\<exists>s f. fst (strava_sync broken_listing_env 1000000 sync_42 fresh_world) =
          \<lparr>status = 200,
           body = Summary_json
             \<lparr>success = True, total_fetched = 2, runs_found = 2, synced = s, failed = f\<rparr>,
           location = None\<rparr>
        \<and> s + f = 2)"
proof -
  let ?b = "\<lparr>b_athlete_id = Some 42, b_weeks = None\<rparr>"
  let ?w1 = "emit (Select_profile 42) fresh_world"
  let ?page1 = "map (\<lambda>i. run_activity (int i)) [1..<101]"
  let ?page2 = "map (\<lambda>i. run_activity (int i)) [101..<201]"
  have req: "req_method sync_42 = ''POST''" "req_body sync_42 = Some ?b"
    "b_athlete_id ?b = Some 42" "(42::int) \<noteq> 0"
    by (simp_all add: sync_42_def)
  have fresh: "\<not> expiresAt fresh_profile \<le> of_int (now_seconds 1000000 + 60)"
    by (simp add: expiresAt_def now_seconds_def fresh_profile_def)
  have tok: "strava_access_token fresh_profile = ''t0''" by (simp add: fresh_profile_def)
  have wk: "weeks_of ?b = 8" by (simp add: weeks_of_def)
  have sel: "select_profile two_pages_env 42 fresh_world = (Some fresh_profile, ?w1)"
    by (simp add: select_profile_def two_pages_env_def quiet_env_def fresh_world_def single_def
          step_def fresh_profile_def)
  have ens: "ensureValidTokens two_pages_env 1000000 fresh_profile ?w1 = (Inr fresh_profile, ?w1)"
    using fresh by (simp add: ensureValidTokens_def)
  have scenario:
    "reply_at two_pages_env (step ?w1) 1 (strava_access_token fresh_profile)
        (after_of 1000000 (weeks_of ?b)) 1 = Reply 200 ?page1 \<and> ok 200 \<and> length ?page1 = 100
     \<and> reply_at two_pages_env (step ?w1) 1 (strava_access_token fresh_profile)
        (after_of 1000000 (weeks_of ?b)) 2 = Reply 200 ?page2 \<and> ok 200 \<and> length ?page2 = 100
     \<and> reply_at two_pages_env (step ?w1) 1 (strava_access_token fresh_profile)
        (after_of 1000000 (weeks_of ?b)) 3 = Reply 200 [] \<and> ok 200
     \<and> (\<forall>a\<in>set (?page1 @ ?page2). a_type a = ''Run'')
     \<and> (\<forall>k i t. \<exists>st a. activity_endpoint two_pages_env k i t = Reply st a \<and> ok st)
     \<and> (\<forall>k. \<not> store_fails two_pages_env k)"
    by (auto simp: reply_at_def two_pages_env_def quiet_env_def ok_def run_activity_def
          simp del: upt_Suc upt_rec_numeral)
  from sync_summary_counts [OF req sel ens, of 200 ?page1 200 ?page2 200] scenario
  have first: "fst (strava_sync two_pages_env 1000000 sync_42 fresh_world) =
     \<lparr>status = 200,
      body = Summary_json
        \<lparr>success = True, total_fetched = 200, runs_found = 200, synced = 200, failed = 0\<rparr>,
      location = None\<rparr>"
    by blast
  have sel': "select_profile broken_listing_env 42 fresh_world = (Some fresh_profile, ?w1)"
    by (simp add: select_profile_def broken_listing_env_def quiet_env_def fresh_world_def single_def
          step_def fresh_profile_def)
  have ens': "ensureValidTokens broken_listing_env 1000000 fresh_profile ?w1 = (Inr fresh_profile, ?w1)"
    using fresh by (simp add: ensureValidTokens_def)
  have answered: "\<forall>k i t. activity_endpoint broken_listing_env k i t \<noteq> Rejected"
    by (simp add: broken_listing_env_def)
  have stop: "\<And>page acts w. page \<noteq> Suc 0 \<Longrightarrow>
      fetch_pages broken_listing_env ''t0'' (after_of 1000000 8) page acts w
        = (Inr acts, emit (Listing_request ''t0'' (after_of 1000000 8) page 100) w)"
    by (subst fetch_pages.simps) (simp add: get_listing_def broken_listing_env_def ok_def)
  have page1: "\<And>k tok after. listing_endpoint broken_listing_env k tok after (Suc 0) 100
                 = Reply 200 [run_activity 1, run_activity 2]"
    by (simp add: broken_listing_env_def)
  have lst: "fetchStravaActivities broken_listing_env (strava_access_token fresh_profile)
               (after_of 1000000 (weeks_of ?b)) ?w1
             = (Inr [run_activity 1, run_activity 2],
                emit (Listing_request ''t0'' (after_of 1000000 8) (Suc (Suc 0)) 100)
                  (emit (Listing_request ''t0'' (after_of 1000000 8) (Suc 0) 100) ?w1))"
    unfolding fetchStravaActivities_def tok wk
    by (subst fetch_pages.simps) (simp add: get_listing_def page1 ok_def stop)
  have run: "a_type (run_activity 1) = ''Run''" "a_type (run_activity 2) = ''Run''"
    by (simp_all add: run_activity_def)
  from sync_summary_counts [OF req sel' ens', of 0 "[]" 0 "[]" 0] answered lst
  have "\<exists>s f. fst (strava_sync broken_listing_env 1000000 sync_42 fresh_world) =
          \<lparr>status = 200,
           body = Summary_json
             \<lparr>success = True, total_fetched = length [run_activity 1, run_activity 2],
              runs_found = length (filter (\<lambda>a. a_type a = ''Run'') [run_activity 1, run_activity 2]),
              synced = s, failed = f\<rparr>,
           location = None\<rparr>
        \<and> s + f = length (filter (\<lambda>a. a_type a = ''Run'') [run_activity 1, run_activity 2])"
    by blast
  then have second: "\<exists>s f. fst (strava_sync broken_listing_env 1000000 sync_42 fresh_world) =
          \<lparr>status = 200,
           body = Summary_json
             \<lparr>success = True, total_fetched = 2, runs_found = 2, synced = s, failed = f\<rparr>,
           location = None\<rparr>
        \<and> s + f = 2"
    by (simp add: run numeral_2_eq_2)
  from first second show ?thesis by blast
qed

subsection \<open>A listing page that is not ok\<close>



end
